theory Spec2Isabelle
  imports Main
begin

section \<open>Data model\<close>

text \<open>
  The agent of \<^verbatim>\<open>agentscope/agent/_react_agent.py\<close> works on messages (\<^verbatim>\<open>Msg\<close>) whose content
  is a list of typed blocks. Metadata and tool arguments are Python dictionaries of
  JSON-like values; a dictionary is an association list, read with \<open>map_of\<close>.
\<close>

datatype json =
    JNull
  | JBool bool
  | JInt int
  | JStr string
  | JList "json list"
  | JObj "(string \<times> json) list"

type_synonym dict = "(string \<times> json) list"

text \<open>Python truthiness, as used by \<^verbatim>\<open>if x\<close> and by \<^verbatim>\<open>[_ for _ in xs if _]\<close>.\<close>

fun truthy :: "json \<Rightarrow> bool" where
  "truthy JNull = False"
| "truthy (JBool b) = b"
| "truthy (JInt i) = (i \<noteq> 0)"
| "truthy (JStr s) = (s \<noteq> [])"
| "truthy (JList xs) = (xs \<noteq> [])"
| "truthy (JObj kvs) = (kvs \<noteq> [])"

text \<open>\<^verbatim>\<open>d.get(k)\<close> and \<^verbatim>\<open>d.get(k, default)\<close>.\<close>

definition dict_get :: "dict \<Rightarrow> string \<Rightarrow> json \<Rightarrow> json" where
  "dict_get d k dflt = (case map_of d k of None \<Rightarrow> dflt | Some v \<Rightarrow> v)"

datatype exn = CancelledError | AttributeError | KeyError | OtherError string

datatype role = System | User | Assistant

text \<open>The payload of a tool response: text, image or audio blocks.\<close>

datatype payload = PText string | PImage string | PAudio string

text \<open>
  The output of a \<^verbatim>\<open>ToolResultBlock\<close> is either a plain string or a list of payload
  blocks (\<^verbatim>\<open>chunk.content\<close>).
\<close>

datatype tool_output = OutStr string | OutBlocks "payload list"

datatype block =
    TextBlock string
  | AudioBlock string
  | ToolUseBlock string string dict
  | ToolResultBlock string string tool_output

record tool_use =
  tu_id :: string
  tu_name :: string
  tu_input :: dict

record msg =
  msg_id :: nat
  msg_name :: string
  msg_content :: "block list"
  msg_role :: role
  msg_metadata :: json

text \<open>\<^verbatim>\<open>msg.get_content_blocks(t)\<close> for the three block types the agent asks for.\<close>

fun is_text :: "block \<Rightarrow> bool" where
  "is_text (TextBlock _) = True"
| "is_text _ = False"

fun is_tool_use :: "block \<Rightarrow> bool" where
  "is_tool_use (ToolUseBlock _ _ _) = True"
| "is_tool_use _ = False"

fun is_tool_result :: "block \<Rightarrow> bool" where
  "is_tool_result (ToolResultBlock _ _ _) = True"
| "is_tool_result _ = False"

definition text_blocks :: "msg \<Rightarrow> block list" where
  "text_blocks m = filter is_text (msg_content m)"

fun tool_uses_of :: "block list \<Rightarrow> tool_use list" where
  "tool_uses_of [] = []"
| "tool_uses_of (ToolUseBlock i n a # bs) =
     \<lparr>tu_id = i, tu_name = n, tu_input = a\<rparr> # tool_uses_of bs"
| "tool_uses_of (_ # bs) = tool_uses_of bs"

definition tool_use_blocks :: "msg \<Rightarrow> tool_use list" where
  "tool_use_blocks m = tool_uses_of (msg_content m)"

fun tool_result_ids_of :: "block list \<Rightarrow> string list" where
  "tool_result_ids_of [] = []"
| "tool_result_ids_of (ToolResultBlock i _ _ # bs) = i # tool_result_ids_of bs"
| "tool_result_ids_of (_ # bs) = tool_result_ids_of bs"

definition tool_result_ids :: "msg \<Rightarrow> string list" where
  "tool_result_ids m = tool_result_ids_of (msg_content m)"

definition tool_use_ids :: "msg \<Rightarrow> string list" where
  "tool_use_ids m = map tu_id (tool_use_blocks m)"

definition has_text :: "msg \<Rightarrow> bool" where
  "has_text m = (text_blocks m \<noteq> [])"

definition has_tool_use :: "msg \<Rightarrow> bool" where
  "has_tool_use m = (tool_use_blocks m \<noteq> [])"

section \<open>The conversation log\<close>

datatype mark = HINT | COMPRESSED

text \<open>
  Modelled from the spec: the memory classes (\<^verbatim>\<open>MemoryBase\<close>, \<^verbatim>\<open>InMemoryMemory\<close>) are
  imported by the agent and are not part of the sources at hand. The specification
  describes the log as an append-only sequence of turns, each carrying at most one
  lifecycle mark, with reads that exclude a given mark, and the agent stores the
  summary of a compaction through \<^verbatim>\<open>update_compressed_summary\<close> and marks turns by
  identifier through \<^verbatim>\<open>update_messages_mark\<close>. A read that names no mark to exclude
  returns every turn: the call sites that want the filtered view pass
  \<^verbatim>\<open>exclude_mark=_MemoryMark.COMPRESSED\<close> and pass \<^verbatim>\<open>None\<close> to switch the filter off.
\<close>

record memory =
  entries :: "(msg \<times> mark option) list"
  compressed_summary :: "string option"

definition empty_memory :: memory where
  "empty_memory = \<lparr>entries = [], compressed_summary = None\<rparr>"

text \<open>\<^verbatim>\<open>memory.add(msgs, marks=k)\<close>; \<^verbatim>\<open>None\<close> is the empty list and is ignored.\<close>

definition mem_add :: "msg list \<Rightarrow> mark option \<Rightarrow> memory \<Rightarrow> memory" where
  "mem_add ms k mem = mem\<lparr>entries := entries mem @ map (\<lambda>m. (m, k)) ms\<rparr>"

definition get_memory :: "mark option \<Rightarrow> memory \<Rightarrow> msg list" where
  "get_memory exclude_mark mem =
     (case exclude_mark of
        None \<Rightarrow> map fst (entries mem)
      | Some x \<Rightarrow> map fst (filter (\<lambda>e. snd e \<noteq> Some x) (entries mem)))"

definition mem_clear :: "memory \<Rightarrow> memory" where
  "mem_clear mem = mem\<lparr>entries := []\<rparr>"

definition update_messages_mark :: "nat list \<Rightarrow> mark \<Rightarrow> memory \<Rightarrow> memory" where
  "update_messages_mark msg_ids new_mark mem =
     mem\<lparr>entries :=
       map (\<lambda>e. if msg_id (fst e) \<in> set msg_ids then (fst e, Some new_mark) else e)
         (entries mem)\<rparr>"

definition update_compressed_summary :: "string \<Rightarrow> memory \<Rightarrow> memory" where
  "update_compressed_summary s mem = mem\<lparr>compressed_summary := Some s\<rparr>"

section \<open>Collaborators\<close>

text \<open>
  A model call either raises, or returns one assembled response
  (\<^verbatim>\<open>model.stream\<close> false), or returns a generator of response chunks that may itself
  raise after the chunks it has produced (\<^verbatim>\<open>model.stream\<close> true). The exception after
  the last chunk also stands for one raised at a later suspension point of the code that
  consumes the response.
\<close>

record chat_response =
  resp_content :: "block list"
  resp_metadata :: "dict option"

datatype llm_result =
    LlmRaises exn
  | LlmFull chat_response "exn option"
  | LlmStream "chat_response list" "exn option"

datatype tool_choice = Auto | NoTools | Required

text \<open>
  The keyword arguments of a model call: the tool schemas (by tool name), the tool-choice
  policy and the name of the structured model requested, if any.
\<close>

record model_args =
  arg_tools :: "string list"
  arg_tool_choice :: "tool_choice option"
  arg_structured_model :: "string option"

definition plain_call :: model_args where
  "plain_call = \<lparr>arg_tools = [], arg_tool_choice = None, arg_structured_model = None\<rparr>"

text \<open>A chunk of a tool's response (\<^verbatim>\<open>ToolResponse\<close>).\<close>

record tool_response =
  tr_content :: "payload list"
  tr_metadata :: "dict option"
  tr_is_last :: bool
  tr_is_interrupted :: bool

text \<open>
  What \<^verbatim>\<open>toolkit.call_tool_function\<close> gives: the call raises, or it returns a generator
  of chunks that may raise after the chunks it has produced.
\<close>

datatype tool_outcome =
    ToolRaises exn
  | ToolStream "tool_response list" "exn option"

text \<open>
  A required structured model (a pydantic class): \<^verbatim>\<open>model_validate(kwargs).model_dump()\<close>
  either raises a \<^verbatim>\<open>ValidationError\<close> with a message or returns the validated data.
\<close>

datatype schema = Schema (validate: "dict \<Rightarrow> string + dict")

text \<open>
  Modelled from the spec: the \<^verbatim>\<open>Toolkit\<close> class is imported by the agent and is not part
  of the sources at hand. Its interface is tool registration and removal, schema
  introspection and \<^verbatim>\<open>invoke(tool_request)\<close> giving a lazy sequence of outcome chunks. The
  registry is the list of registered tool names; every tool but the finishing tool is an
  external function of the request.
\<close>

record toolkit =
  tools :: "string list"
  call_external :: "tool_use \<Rightarrow> tool_outcome"
  agent_skill_prompt :: string
  extended_model :: "schema option"

record 'p compression_config =
  enable :: bool
  agent_token_counter :: "'p \<Rightarrow> int"
  trigger_threshold :: int
  keep_recent :: int
  compression_prompt :: string
  summary_template :: "dict \<Rightarrow> exn + string"
  compression_model :: "('p \<Rightarrow> model_args \<Rightarrow> llm_result) option"
  compression_formatter :: "(msg list \<Rightarrow> 'p) option"

text \<open>
  The agent: its configuration, its collaborators and its mutable state. Message
  identifiers are drawn from the counter \<open>next_id\<close>, which stands for the unique
  identifier every new \<^verbatim>\<open>Msg\<close> object receives. \<open>plan_notebook\<close> is the plan tracker's
  \<^verbatim>\<open>get_current_hint\<close>, giving the text of the guidance turn if there is one, as a
  function of the log. \<open>ltm_retrieve\<close> and \<open>ltm_record\<close> are the long-term memory;
  \<open>knowledge\<close>, when there are knowledge bases, stands for the query built from the
  input, its optional rewriting by the model, the retrieval and the sort by score, and
  gives the content blocks of the documents found. Printing touches neither the log nor
  the hint messages and is left out.

  The speech synthesis classes (\<^verbatim>\<open>TTSModelBase\<close>, \<^verbatim>\<open>_AsyncNullContext\<close>) are imported and
  not part of the sources at hand. Of a speech synthesis model only the entry into its
  context (\<^verbatim>\<open>async with tts_context\<close>) is modelled, which may raise; without a model the
  context is the null context, whose entry does nothing. The pushes and syntheses inside
  the block are suspension points of the code that consumes a response, and an exception
  raised there is the exception that ends the response.
\<close>

record tts =
  tts_enter :: "exn option"

record 'p agent =
  name :: string
  base_sys_prompt :: string
  max_iters :: int
  model :: "'p \<Rightarrow> model_args \<Rightarrow> llm_result"
  formatter :: "msg list \<Rightarrow> 'p"
  tts_model :: "tts option"
  compression_cfg :: "'p compression_config option"
  memory :: memory
  static_control :: bool
  ltm_retrieve :: "msg list \<Rightarrow> exn + string"
  ltm_record :: "msg list \<Rightarrow> exn option"
  knowledge :: "(memory \<Rightarrow> msg list \<Rightarrow> exn + block list) option"
  the_toolkit :: toolkit
  parallel_tool_calls :: bool
  plan_notebook :: "(memory \<Rightarrow> string option) option"
  print_hint_msg :: bool
  reasoning_hint_msgs :: memory
  required_structured_model :: "schema option"
  next_id :: nat

definition finish_function_name :: string where
  "finish_function_name = ''generate_response''"

text \<open>\<^verbatim>\<open>Msg(name, content, role, metadata=...)\<close>: a new message with a fresh identifier.\<close>

definition new_msg ::
  "string \<Rightarrow> block list \<Rightarrow> role \<Rightarrow> json \<Rightarrow> 'p agent \<Rightarrow> msg \<times> 'p agent" where
  "new_msg n c r md self =
     (\<lparr>msg_id = next_id self, msg_name = n, msg_content = c, msg_role = r,
       msg_metadata = md\<rparr>,
      self\<lparr>next_id := Suc (next_id self)\<rparr>)"

text \<open>The property \<^verbatim>\<open>sys_prompt\<close>.\<close>

definition sys_prompt :: "'p agent \<Rightarrow> string" where
  "sys_prompt self =
     (if agent_skill_prompt (the_toolkit self) \<noteq> []
      then base_sys_prompt self @ [CHR 0x0A, CHR 0x0A] @ agent_skill_prompt (the_toolkit self)
      else base_sys_prompt self)"

section \<open>Memory compaction\<close>

text \<open>
  The backward walk of \<^verbatim>\<open>_compress_memory_if_needed\<close>. The list argument is the part of
  the view not yet visited, newest turn first, so its head is \<^verbatim>\<open>to_compressed_msgs[i]\<close>
  and its tail, reversed, is \<^verbatim>\<open>to_compressed_msgs[:i]\<close>. \<open>None\<close> says that the loop ran
  to its end without reaching \<^verbatim>\<open>break\<close>.
\<close>

definition add_result_ids :: "msg \<Rightarrow> string set \<Rightarrow> string set" where
  "add_result_ids m acc = fold insert (tool_result_ids m) acc"

definition remove_use_ids :: "msg \<Rightarrow> string set \<Rightarrow> string set" where
  "remove_use_ids m acc = fold (\<lambda>i a. if i \<in> a then a - {i} else a) (tool_use_ids m) acc"

fun keep_walk :: "int \<Rightarrow> int \<Rightarrow> string set \<Rightarrow> msg list \<Rightarrow> msg list option" where
  "keep_walk k n_keep acc [] = None"
| "keep_walk k n_keep acc (m # older) =
     (let acc' = remove_use_ids m (add_result_ids m acc);
          n_keep' = (if acc' = {} then n_keep + 1 else n_keep)
      in if n_keep' \<ge> k then Some (rev older) else keep_walk k n_keep' acc' older)"

definition compaction_candidate :: "int \<Rightarrow> msg list \<Rightarrow> msg list" where
  "compaction_candidate k view =
     (case keep_walk k 0 {} (rev view) of None \<Rightarrow> view | Some older \<Rightarrow> older)"

text \<open>The last chunk of the summarization response, or the exception met on the way.\<close>

fun last_chunk_of :: "llm_result \<Rightarrow> exn + chat_response option" where
  "last_chunk_of (LlmRaises e) = Inl e"
| "last_chunk_of (LlmFull r e) = (case e of Some x \<Rightarrow> Inl x | None \<Rightarrow> Inr (Some r))"
| "last_chunk_of (LlmStream cs e) =
     (case e of Some x \<Rightarrow> Inl x
      | None \<Rightarrow> Inr (if cs = [] then None else Some (last cs)))"

text \<open>
  \<^verbatim>\<open>_compress_memory_if_needed\<close>, in the three stages of its body: the summarization call
  (the compression formatter and model default to the agent's own), the handling of the
  last chunk, and the function itself.
\<close>

definition effective_compression_model ::
  "'p agent \<Rightarrow> 'p compression_config \<Rightarrow> 'p \<Rightarrow> model_args \<Rightarrow> llm_result" where
  "effective_compression_model self cfg =
     (case compression_model cfg of Some f \<Rightarrow> f | None \<Rightarrow> model self)"

definition effective_compression_formatter ::
  "'p agent \<Rightarrow> 'p compression_config \<Rightarrow> msg list \<Rightarrow> 'p" where
  "effective_compression_formatter self cfg =
     (case compression_formatter cfg of Some f \<Rightarrow> f | None \<Rightarrow> formatter self)"

definition summarization_call ::
  "'p compression_config \<Rightarrow> msg list \<Rightarrow> 'p agent \<Rightarrow> llm_result \<times> 'p agent" where
  "summarization_call cfg to_compressed_msgs self =
     (let (sys2, self2) = new_msg ''system'' [TextBlock (sys_prompt self)] System JNull self;
          (usr, self3) = new_msg ''user'' [TextBlock (compression_prompt cfg)] User JNull self2;
          compression_prompt = effective_compression_formatter self cfg
                                 (sys2 # to_compressed_msgs @ [usr])
      in (effective_compression_model self cfg compression_prompt
            (plain_call\<lparr>arg_structured_model := Some ''SummarySchema''\<rparr>),
          self3))"

definition store_summary ::
  "'p compression_config \<Rightarrow> msg list \<Rightarrow> llm_result \<Rightarrow> 'p agent \<Rightarrow> (exn + unit) \<times> 'p agent"
  where
  "store_summary cfg to_compressed_msgs res self =
     (case last_chunk_of res of
        Inl e \<Rightarrow> (Inl e, self)
      | Inr None \<Rightarrow> (Inl AttributeError, self)
      | Inr (Some last_chunk) \<Rightarrow>
          (case resp_metadata last_chunk of
             None \<Rightarrow> (Inr (), self)
           | Some md \<Rightarrow>
               if md = [] then (Inr (), self)
               else
                 (case summary_template cfg md of
                    Inl e \<Rightarrow> (Inl e, self)
                  | Inr summary \<Rightarrow>
                      (Inr (),
                       self\<lparr>memory :=
                         update_messages_mark (map msg_id to_compressed_msgs) COMPRESSED
                           (update_compressed_summary summary (memory self))\<rparr>))))"

definition compress_memory_if_needed :: "'p agent \<Rightarrow> (exn + unit) \<times> 'p agent" where
  "compress_memory_if_needed self =
     (case compression_cfg self of
        None \<Rightarrow> (Inr (), self)
      | Some cfg \<Rightarrow>
          if \<not> enable cfg then (Inr (), self)
          else
            let to_compressed_msgs =
                  compaction_candidate (keep_recent cfg)
                    (get_memory (Some COMPRESSED) (memory self))
            in if to_compressed_msgs = [] then (Inr (), self)
            else
              let (sys1, self1) =
                    new_msg ''system'' [TextBlock (sys_prompt self)] System JNull self;
                  prompt = formatter self1 (sys1 # to_compressed_msgs);
                  n_tokens = agent_token_counter cfg prompt
              in if n_tokens > trigger_threshold cfg
                 then let (res, self2) = summarization_call cfg to_compressed_msgs self1
                      in store_summary cfg to_compressed_msgs res self2
                 else (Inr (), self1))"

section \<open>The finishing tool and the tool invocation coordinator\<close>

text \<open>
  The user-visible texts of the source are Chinese string literals; they are given here
  by ASCII renderings of the same sentences. No property below depends on their wording.
\<close>

definition validation_error_text :: string where
  "validation_error_text = ''Arguments Validation Error: ''"

definition success_text :: string where
  "success_text = ''Successfully generated response.''"

definition interrupted_text :: string where
  "interrupted_text = ''The tool call has been interrupted by the user.''"

definition text_response_hint :: string where
  "text_response_hint =
     ''<system-hint>Now generate a text response based on your current situation</system-hint>''"

definition structured_output_hint :: string where
  "structured_output_hint =
     ''<system-hint>Structured output is required, go on to finish your task or call ''
     @ [CHR 0x27] @ finish_function_name @ [CHR 0x27]
     @ '' to generate the required structured output.</system-hint>''"

definition summarizing_hint :: string where
  "summarizing_hint =
     ''You have failed to generate response within the maximum iterations. ''
     @ ''Now respond directly by summarizing the current situation.''"

text \<open>
  \<^verbatim>\<open>generate_response(**kwargs)\<close>. The warning logged when no structured model is required
  has no effect on the state. A \<^verbatim>\<open>ToolResponse\<close> built without \<^verbatim>\<open>is_last\<close> is a last chunk.
\<close>

definition generate_response :: "dict \<Rightarrow> 'p agent \<Rightarrow> tool_response" where
  "generate_response kwargs self =
     (let ok = (\<lambda>structured_output.
                 \<lparr>tr_content = [PText success_text],
                  tr_metadata = Some [(''success'', JBool True),
                                      (''structured_output'', structured_output)],
                  tr_is_last = True, tr_is_interrupted = False\<rparr>)
      in case required_structured_model self of
           Some sm \<Rightarrow>
             (case validate sm kwargs of
                Inl e \<Rightarrow>
                  \<lparr>tr_content = [PText (validation_error_text @ e)],
                   tr_metadata = Some [(''success'', JBool False),
                                       (''structured_output'', JObj [])],
                   tr_is_last = True, tr_is_interrupted = False\<rparr>
              | Inr data \<Rightarrow> ok (JObj data))
         | None \<Rightarrow> ok JNull)"

text \<open>
  \<^verbatim>\<open>toolkit.call_tool_function\<close>: the finishing tool, when registered, is the agent's own
  \<^verbatim>\<open>generate_response\<close>, whose response is the only chunk.
\<close>

definition call_tool_function :: "tool_use \<Rightarrow> 'p agent \<Rightarrow> tool_outcome" where
  "call_tool_function tool_call self =
     (if tu_name tool_call = finish_function_name
         \<and> finish_function_name \<in> set (tools (the_toolkit self))
      then ToolStream [generate_response (tu_input tool_call) self] None
      else call_external (the_toolkit self) tool_call)"

text \<open>
  The \<^verbatim>\<open>async for\<close> of \<^verbatim>\<open>_acting\<close>: the output recorded so far is threaded through, and the
  result is the exception raised or the value returned (\<open>JNull\<close> is \<^verbatim>\<open>None\<close>).
\<close>

definition chunk_success :: "tool_response \<Rightarrow> bool" where
  "chunk_success chunk =
     (case tr_metadata chunk of
        None \<Rightarrow> False
      | Some md \<Rightarrow> md \<noteq> [] \<and> truthy (dict_get md ''success'' (JBool False)))"

definition chunk_structured_output :: "tool_response \<Rightarrow> json" where
  "chunk_structured_output chunk =
     (case tr_metadata chunk of
        None \<Rightarrow> JNull
      | Some md \<Rightarrow> dict_get md ''structured_output'' JNull)"

fun consume_tool_chunks ::
  "tool_use \<Rightarrow> tool_response list \<Rightarrow> exn option \<Rightarrow> tool_output \<Rightarrow> (exn + json) \<times> tool_output"
  where
  "consume_tool_chunks tool_call [] ending output =
     (case ending of Some e \<Rightarrow> (Inl e, output) | None \<Rightarrow> (Inr JNull, output))"
| "consume_tool_chunks tool_call (chunk # rest) ending output =
     (let output' = OutBlocks (tr_content chunk)
      in if tr_is_interrupted chunk then (Inl CancelledError, output')
         else if tu_name tool_call = finish_function_name \<and> chunk_success chunk
         then (Inr (chunk_structured_output chunk), output')
         else consume_tool_chunks tool_call rest ending output')"

definition acting :: "tool_use \<Rightarrow> 'p agent \<Rightarrow> (exn + json) \<times> 'p agent" where
  "acting tool_call self =
     (let (tool_res_msg, self1) =
            new_msg ''system''
              [ToolResultBlock (tu_id tool_call) (tu_name tool_call) (OutBlocks [])]
              System JNull self;
          (res, output) =
            (case call_tool_function tool_call self1 of
               ToolRaises e \<Rightarrow> (Inl e, OutBlocks [])
             | ToolStream chunks ending \<Rightarrow>
                 consume_tool_chunks tool_call chunks ending (OutBlocks []));
          tool_res_msg' =
            tool_res_msg\<lparr>msg_content :=
              [ToolResultBlock (tu_id tool_call) (tu_name tool_call) output]\<rparr>
      in (res, self1\<lparr>memory := mem_add [tool_res_msg'] None (memory self1)\<rparr>))"

text \<open>
  The tool calls of one reasoning step, one at a time in request order: an exception
  ends the sequence and the remaining calls are never started. With
  \<^verbatim>\<open>parallel_tool_calls\<close> the same calls run under \<^verbatim>\<open>asyncio.gather\<close>, which returns the same
  list of values in request order when none of them raises; the order of the log
  appends of concurrent calls is not determined and is not modelled.
\<close>

fun acting_all :: "tool_use list \<Rightarrow> 'p agent \<Rightarrow> (exn + json list) \<times> 'p agent" where
  "acting_all [] self = (Inr [], self)"
| "acting_all (tool_call # rest) self =
     (case acting tool_call self of
        (Inl e, self1) \<Rightarrow> (Inl e, self1)
      | (Inr out, self1) \<Rightarrow>
          (case acting_all rest self1 of
             (Inl e, self2) \<Rightarrow> (Inl e, self2)
           | (Inr outs, self2) \<Rightarrow> (Inr (out # outs), self2)))"

section \<open>The reasoning step\<close>

text \<open>
  \<^verbatim>\<open>_reasoning\<close> up to the model call: the plan tracker's hint is added to the log with the
  mark \<^verbatim>\<open>HINT\<close>, the prompt is formatted from the system message, \<^verbatim>\<open>memory.get_memory()\<close>
  and the hint messages, and the hint messages are cleared.
\<close>

definition add_plan_hint :: "'p agent \<Rightarrow> 'p agent" where
  "add_plan_hint self =
     (case plan_notebook self of
        None \<Rightarrow> self
      | Some get_current_hint \<Rightarrow>
          (case get_current_hint (memory self) of
             None \<Rightarrow> self
           | Some hint \<Rightarrow>
               let (hint_msg, self1) = new_msg ''user'' [TextBlock hint] User JNull self
               in self1\<lparr>memory := mem_add [hint_msg] (Some HINT) (memory self1)\<rparr>))"

definition reasoning_prompt_msgs :: "'p agent \<Rightarrow> msg list \<times> 'p agent" where
  "reasoning_prompt_msgs self =
     (let (sys_msg, self1) =
            new_msg ''system'' [TextBlock (sys_prompt self)] System JNull self
      in (sys_msg # get_memory None (memory self1)
            @ get_memory None (reasoning_hint_msgs self1),
          self1))"

definition reasoning_call :: "tool_choice option \<Rightarrow> 'p agent \<Rightarrow> llm_result \<times> 'p agent" where
  "reasoning_call tool_choice self =
     (let self1 = add_plan_hint self;
          (msgs, self2) = reasoning_prompt_msgs self1;
          prompt = formatter self2 msgs;
          self3 = self2\<lparr>reasoning_hint_msgs := mem_clear (reasoning_hint_msgs self2)\<rparr>
      in (model self3 prompt
            \<lparr>arg_tools = tools (the_toolkit self3), arg_tool_choice = tool_choice,
             arg_structured_model = None\<rparr>,
          self3))"

text \<open>
  The \<^verbatim>\<open>try\<close> block of \<^verbatim>\<open>_reasoning\<close> and its \<^verbatim>\<open>finally\<close>. The message is created inside the
  speech synthesis context: if entering the context raises, there is no message, the
  \<^verbatim>\<open>finally\<close> adds nothing to the log and the exception propagates. Otherwise the message
  takes the content of the last chunk received, it is added to the log, and after a
  cancellation one result message is added for each of its tool calls.
\<close>

definition enter_tts_context :: "'p agent \<Rightarrow> exn option" where
  "enter_tts_context self = (case tts_model self of None \<Rightarrow> None | Some t \<Rightarrow> tts_enter t)"

fun fake_tool_results :: "tool_use list \<Rightarrow> 'p agent \<Rightarrow> 'p agent" where
  "fake_tool_results [] self = self"
| "fake_tool_results (tool_call # rest) self =
     (let (msg_res, self1) =
            new_msg ''system''
              [ToolResultBlock (tu_id tool_call) (tu_name tool_call) (OutStr interrupted_text)]
              System JNull self
      in fake_tool_results rest (self1\<lparr>memory := mem_add [msg_res] None (memory self1)\<rparr>))"

definition record_reasoning :: "block list \<Rightarrow> exn option \<Rightarrow> 'p agent \<Rightarrow> (exn + msg) \<times> 'p agent"
  where
  "record_reasoning content ending self =
     (let (m, self1) = new_msg (name self) content Assistant JNull self;
          self2 = self1\<lparr>memory := mem_add [m] None (memory self1)\<rparr>
      in case ending of
           None \<Rightarrow> (Inr m, self2)
         | Some e \<Rightarrow>
             (Inl e,
              if e = CancelledError then fake_tool_results (tool_use_blocks m) self2
              else self2))"

definition last_content :: "chat_response list \<Rightarrow> block list" where
  "last_content chunks = (if chunks = [] then [] else resp_content (last chunks))"

fun consume_response :: "llm_result \<Rightarrow> 'p agent \<Rightarrow> (exn + msg) \<times> 'p agent" where
  "consume_response (LlmRaises e) self = (Inl e, self)"
| "consume_response (LlmFull res ending) self =
     (case enter_tts_context self of
        Some e \<Rightarrow> (Inl e, self)
      | None \<Rightarrow> record_reasoning (resp_content res) ending self)"
| "consume_response (LlmStream chunks ending) self =
     (case enter_tts_context self of
        Some e \<Rightarrow> (Inl e, self)
      | None \<Rightarrow> record_reasoning (last_content chunks) ending self)"

definition reasoning :: "tool_choice option \<Rightarrow> 'p agent \<Rightarrow> (exn + msg) \<times> 'p agent" where
  "reasoning tool_choice self =
     (let (res, self1) = reasoning_call tool_choice self in consume_response res self1)"

section \<open>The entry operation\<close>

definition long_term_memory_text :: "string \<Rightarrow> string" where
  "long_term_memory_text info =
     ''<long_term_memory>The content below are retrieved from long-term memory, ''
     @ ''which maybe useful:'' @ [CHR 0x0A] @ info @ ''</long_term_memory>''"

definition retrieved_knowledge_blocks :: "block list \<Rightarrow> block list" where
  "retrieved_knowledge_blocks docs =
     TextBlock (''<retrieved_knowledge>Use the following content from the knowledge ''
                @ ''base(s) if it is helpful:'' @ [CHR 0x0A])
     # docs @ [TextBlock ''</retrieved_knowledge>'']"

definition retrieve_from_long_term_memory :: "msg list \<Rightarrow> 'p agent \<Rightarrow> (exn + unit) \<times> 'p agent"
  where
  "retrieve_from_long_term_memory msgs self =
     (if static_control self \<and> msgs \<noteq> []
      then (case ltm_retrieve self msgs of
              Inl e \<Rightarrow> (Inl e, self)
            | Inr retrieved_info \<Rightarrow>
                if retrieved_info \<noteq> []
                then let (retrieved_msg, self1) =
                           new_msg ''long_term_memory''
                             [TextBlock (long_term_memory_text retrieved_info)] User JNull self
                     in (Inr (), self1\<lparr>memory := mem_add [retrieved_msg] None (memory self1)\<rparr>)
                else (Inr (), self))
      else (Inr (), self))"

definition retrieve_from_knowledge :: "msg list \<Rightarrow> 'p agent \<Rightarrow> (exn + unit) \<times> 'p agent" where
  "retrieve_from_knowledge msgs self =
     (case knowledge self of
        None \<Rightarrow> (Inr (), self)
      | Some retrieve \<Rightarrow>
          if msgs = [] then (Inr (), self)
          else (case retrieve (memory self) msgs of
                  Inl e \<Rightarrow> (Inl e, self)
                | Inr docs \<Rightarrow>
                    if docs \<noteq> []
                    then let (retrieved_msg, self1) =
                               new_msg ''user'' (retrieved_knowledge_blocks docs) User JNull self
                         in (Inr (),
                             self1\<lparr>memory := mem_add [retrieved_msg] None (memory self1)\<rparr>)
                    else (Inr (), self)))"

text \<open>
  The structured output management of \<^verbatim>\<open>reply\<close>: with a structured model the finishing
  tool is registered unless it already is, and a tool call is required; without one the
  finishing tool is removed.
\<close>

definition setup_structured_output ::
  "schema option \<Rightarrow> 'p agent \<Rightarrow> tool_choice option \<times> 'p agent" where
  "setup_structured_output structured_model self =
     (let self1 = self\<lparr>required_structured_model := structured_model\<rparr>;
          tk = the_toolkit self1
      in case structured_model of
           Some sm \<Rightarrow>
             (Some Required,
              self1\<lparr>the_toolkit :=
                tk\<lparr>tools := (if finish_function_name \<in> set (tools tk) then tools tk
                              else tools tk @ [finish_function_name]),
                   extended_model := Some sm\<rparr>\<rparr>)
         | None \<Rightarrow>
             (None,
              self1\<lparr>the_toolkit := tk\<lparr>tools := removeAll finish_function_name (tools tk)\<rparr>\<rparr>))"

text \<open>
  The exit conditions checked after the acting step of one iteration. The result is the
  reply message if the loop is left by \<^verbatim>\<open>break\<close>, the tool choice of the next
  iteration and the cached structured output. When the reasoning message itself becomes
  the reply, its metadata is set on the reply; the turn recorded in the log stays as it
  was recorded (turns are immutable once appended).
\<close>

definition check_exit ::
  "msg \<Rightarrow> json list \<Rightarrow> tool_choice option \<Rightarrow> json \<Rightarrow> 'p agent
     \<Rightarrow> (msg option \<times> tool_choice option \<times> json) \<times> 'p agent" where
  "check_exit msg_reasoning structured_outputs tool_choice structured_output self =
     (if required_structured_model self \<noteq> None
      then
        let structured_outputs' = filter truthy structured_outputs
        in if structured_outputs' \<noteq> []
           then
             let structured_output' = last structured_outputs'
             in if has_text msg_reasoning
                then let (reply_msg, self1) =
                           new_msg (name self) (text_blocks msg_reasoning) Assistant
                             structured_output' self
                     in ((Some reply_msg, tool_choice, structured_output'), self1)
                else let (msg_hint, self1) =
                           new_msg ''user'' [TextBlock text_response_hint] User JNull self
                     in ((None, Some NoTools, structured_output'),
                         self1\<lparr>memory := mem_add [msg_hint] (Some HINT) (memory self1),
                               required_structured_model := None\<rparr>)
           else if \<not> has_tool_use msg_reasoning
           then let (msg_hint, self1) =
                      new_msg ''user'' [TextBlock structured_output_hint] User JNull self
                in ((None, Some Required, structured_output),
                    self1\<lparr>reasoning_hint_msgs :=
                      mem_add [msg_hint] None (reasoning_hint_msgs self1)\<rparr>)
           else ((None, tool_choice, structured_output), self)
      else if \<not> has_tool_use msg_reasoning
      then ((Some (msg_reasoning\<lparr>msg_metadata := structured_output\<rparr>), tool_choice,
             structured_output), self)
      else ((None, tool_choice, structured_output), self))"

text \<open>
  The reasoning-acting loop, by recursion on the iterations left. It returns the reply
  message if there is one, the cached structured output and the number of iterations it
  has run.
\<close>

fun reply_loop ::
  "nat \<Rightarrow> tool_choice option \<Rightarrow> json \<Rightarrow> 'p agent
     \<Rightarrow> (exn + msg option \<times> json \<times> nat) \<times> 'p agent" where
  "reply_loop 0 tool_choice structured_output self = (Inr (None, structured_output, 0), self)"
| "reply_loop (Suc n) tool_choice structured_output self =
     (case reasoning tool_choice self of
        (Inl e, self1) \<Rightarrow> (Inl e, self1)
      | (Inr msg_reasoning, self1) \<Rightarrow>
          (case acting_all (tool_use_blocks msg_reasoning) self1 of
             (Inl e, self2) \<Rightarrow> (Inl e, self2)
           | (Inr structured_outputs, self2) \<Rightarrow>
               (case check_exit msg_reasoning structured_outputs tool_choice
                       structured_output self2 of
                  ((Some reply_msg, _, structured_output'), self3) \<Rightarrow>
                    (Inr (Some reply_msg, structured_output', 1), self3)
                | ((None, tool_choice', structured_output'), self3) \<Rightarrow>
                    (case reply_loop n tool_choice' structured_output' self3 of
                       (Inl e, self4) \<Rightarrow> (Inl e, self4)
                     | (Inr (r, so, k), self4) \<Rightarrow> (Inr (r, so, Suc k), self4)))))"

text \<open>
  \<^verbatim>\<open>_summarizing\<close>: the reply forced when the iterations are used up. Its message too is
  created inside the speech synthesis context; nothing here is added to the log.
\<close>

definition compression_enabled :: "'p agent \<Rightarrow> bool" where
  "compression_enabled self =
     (case compression_cfg self of None \<Rightarrow> False | Some cfg \<Rightarrow> enable cfg)"

definition summarizing :: "'p agent \<Rightarrow> (exn + msg) \<times> 'p agent" where
  "summarizing self =
     (let (hint_msg, self1) = new_msg ''user'' [TextBlock summarizing_hint] User JNull self;
          (sys_msg, self2) =
            new_msg ''system'' [TextBlock (sys_prompt self1)] System JNull self1;
          prompt = formatter self2
                     (sys_msg
                      # get_memory (if compression_enabled self2 then Some COMPRESSED else None)
                          (memory self2)
                      @ [hint_msg]);
          res = model self2 prompt plain_call;
          answer = (\<lambda>content ending.
                      case enter_tts_context self2 of
                        Some e \<Rightarrow> (Inl e, self2)
                      | None \<Rightarrow>
                          let (res_msg, self3) =
                                new_msg (name self2) content Assistant JNull self2
                          in case ending of
                               Some e \<Rightarrow> (Inl e, self3)
                             | None \<Rightarrow> (Inr res_msg, self3))
      in case res of
           LlmRaises e \<Rightarrow> (Inl e, self2)
         | LlmFull r ending \<Rightarrow> answer (resp_content r) ending
         | LlmStream chunks ending \<Rightarrow> answer (last_content chunks) ending)"

text \<open>
  The end of \<^verbatim>\<open>reply\<close>: the fallback when the loop has left no reply message, and the
  record to the long-term memory under static control.
\<close>

definition finish_reply :: "msg option \<Rightarrow> json \<Rightarrow> 'p agent \<Rightarrow> (exn + msg) \<times> 'p agent" where
  "finish_reply reply_msg structured_output self =
     (let (res, self1) =
            (case reply_msg of
               Some r \<Rightarrow> (Inr r, self)
             | None \<Rightarrow>
                 (case summarizing self of
                    (Inl e, s) \<Rightarrow> (Inl e, s)
                  | (Inr r, s) \<Rightarrow>
                      let r' = r\<lparr>msg_metadata := structured_output\<rparr>
                      in (Inr r', s\<lparr>memory := mem_add [r'] None (memory s)\<rparr>)))
      in case res of
           Inl e \<Rightarrow> (Inl e, self1)
         | Inr r \<Rightarrow>
             if static_control self1
             then (case ltm_record self1 (get_memory (Some COMPRESSED) (memory self1)) of
                     Some e \<Rightarrow> (Inl e, self1)
                   | None \<Rightarrow> (Inr r, self1))
             else (Inr r, self1))"

definition reply_from ::
  "nat \<Rightarrow> tool_choice option \<Rightarrow> json \<Rightarrow> 'p agent \<Rightarrow> (exn + msg) \<times> 'p agent" where
  "reply_from n tool_choice structured_output self =
     (case reply_loop n tool_choice structured_output self of
        (Inl e, self1) \<Rightarrow> (Inl e, self1)
      | (Inr (reply_msg, structured_output', k), self1) \<Rightarrow>
          finish_reply reply_msg structured_output' self1)"

definition reply :: "msg list \<Rightarrow> schema option \<Rightarrow> 'p agent \<Rightarrow> (exn + msg) \<times> 'p agent" where
  "reply msgs structured_model self =
     (let self1 = self\<lparr>memory := mem_add msgs None (memory self)\<rparr>
      in case retrieve_from_long_term_memory msgs self1 of
           (Inl e, self2) \<Rightarrow> (Inl e, self2)
         | (Inr _, self2) \<Rightarrow>
             (case retrieve_from_knowledge msgs self2 of
                (Inl e, self3) \<Rightarrow> (Inl e, self3)
              | (Inr _, self3) \<Rightarrow>
                  let (tool_choice, self4) = setup_structured_output structured_model self3
                  in reply_from (nat (max_iters self4)) tool_choice JNull self4))"

section \<open>Concrete agents\<close>

text \<open>
  A small agent whose prompts are the message lists themselves, used to run the
  definitions on concrete inputs.
\<close>

definition text_msg :: "nat \<Rightarrow> string \<Rightarrow> role \<Rightarrow> string \<Rightarrow> msg" where
  "text_msg i n r s =
     \<lparr>msg_id = i, msg_name = n, msg_content = [TextBlock s], msg_role = r,
      msg_metadata = JNull\<rparr>"

definition blocks_msg :: "nat \<Rightarrow> string \<Rightarrow> role \<Rightarrow> block list \<Rightarrow> msg" where
  "blocks_msg i n r bs =
     \<lparr>msg_id = i, msg_name = n, msg_content = bs, msg_role = r, msg_metadata = JNull\<rparr>"

definition demo_toolkit :: toolkit where
  "demo_toolkit =
     \<lparr>tools = [], call_external = (\<lambda>_. ToolStream [] None), agent_skill_prompt = [],
      extended_model = None\<rparr>"

definition demo_agent :: "(msg list \<Rightarrow> model_args \<Rightarrow> llm_result) \<Rightarrow> (msg list) agent" where
  "demo_agent llm =
     \<lparr>name = ''Friday'', base_sys_prompt = ''You are a helpful assistant.'', max_iters = 10,
      model = llm, formatter = (\<lambda>ms. ms), tts_model = None, compression_cfg = None,
      memory = empty_memory,
      static_control = False, ltm_retrieve = (\<lambda>_. Inr []), ltm_record = (\<lambda>_. None),
      knowledge = None, the_toolkit = demo_toolkit,
      parallel_tool_calls = False, plan_notebook = None, print_hint_msg = False,
      reasoning_hint_msgs = empty_memory, required_structured_model = None, next_id = 100\<rparr>"

definition demo_compression :: "int \<Rightarrow> int \<Rightarrow> (msg list) compression_config" where
  "demo_compression cost k =
     \<lparr>enable = True, agent_token_counter = (\<lambda>_. cost), trigger_threshold = 400,
      keep_recent = k, compression_prompt = ''Now write a continuation summary.'',
      summary_template = (\<lambda>md. case map_of md ''task_overview'' of
                                  Some (JStr s) \<Rightarrow> Inr s | _ \<Rightarrow> Inl KeyError),
      compression_model = None, compression_formatter = None\<rparr>"

definition summary_reply :: "dict option \<Rightarrow> msg list \<Rightarrow> model_args \<Rightarrow> llm_result" where
  "summary_reply md = (\<lambda>_ _. LlmFull \<lparr>resp_content = [], resp_metadata = md\<rparr> None)"

text \<open>
  The structured metadata a summarization response carries: the non-empty metadata of
  its last chunk, if the response arrived.
\<close>

definition structured_metadata_of :: "llm_result \<Rightarrow> dict option" where
  "structured_metadata_of r =
     (case last_chunk_of r of
        Inr (Some ch) \<Rightarrow>
          (case resp_metadata ch of
             None \<Rightarrow> None
           | Some md \<Rightarrow> if md = [] then None else Some md)
      | _ \<Rightarrow> None)"

text \<open>
  What a model call gave to the code that consumes it: the content the assistant message
  ends up with (none if the call itself raised) and the exception that ended it, if any.
\<close>

fun response_content :: "llm_result \<Rightarrow> block list option" where
  "response_content (LlmRaises e) = None"
| "response_content (LlmFull r ending) = Some (resp_content r)"
| "response_content (LlmStream chunks ending) = Some (last_content chunks)"

fun response_ending :: "llm_result \<Rightarrow> exn option" where
  "response_ending (LlmRaises e) = Some e"
| "response_ending (LlmFull r ending) = ending"
| "response_ending (LlmStream chunks ending) = ending"

text \<open>The content of the result message synthesized for an interrupted tool call.\<close>

definition interrupted_result :: "tool_use \<Rightarrow> block list" where
  "interrupted_result tool_call =
     [ToolResultBlock (tu_id tool_call) (tu_name tool_call) (OutStr interrupted_text)]"

text \<open>A model that answers with the blocks of its whole prompt, in order.\<close>

definition echo_model :: "msg list \<Rightarrow> model_args \<Rightarrow> llm_result" where
  "echo_model =
     (\<lambda>p a. LlmFull \<lparr>resp_content = concat (map msg_content p), resp_metadata = None\<rparr> None)"

text \<open>A log whose first turn has been compacted.\<close>

definition compressed_log :: memory where
  "compressed_log =
     \<lparr>entries = [(text_msg 0 ''user'' User ''old'', Some COMPRESSED),
                 (text_msg 1 ''user'' User ''new'', None)],
      compressed_summary = Some ''summary''\<rparr>"

text \<open>A plan tracker that gives its guidance while the log is empty.\<close>

definition first_step_hint :: "memory \<Rightarrow> string option" where
  "first_step_hint mem = (if entries mem = [] then Some ''plan hint'' else None)"

text \<open>
  The turns \<^verbatim>\<open>_reasoning\<close> adds to the log before it calls the model: the plan tracker's
  guidance turn, marked \<^verbatim>\<open>HINT\<close>, when the tracker gives one.
\<close>

definition plan_hint_turns :: "'p agent \<Rightarrow> (msg \<times> mark option) list" where
  "plan_hint_turns self =
     (case plan_notebook self of
        None \<Rightarrow> []
      | Some get_current_hint \<Rightarrow>
          (case get_current_hint (memory self) of
             None \<Rightarrow> []
           | Some hint \<Rightarrow>
               [(\<lparr>msg_id = next_id self, msg_name = ''user'', msg_content = [TextBlock hint],
                  msg_role = User, msg_metadata = JNull\<rparr>, Some HINT)]))"

text \<open>A model whose stream is cancelled after two chunks, the second requesting a tool.\<close>

definition cancelled_stream :: "msg list \<Rightarrow> model_args \<Rightarrow> llm_result" where
  "cancelled_stream =
     (\<lambda>p a. LlmStream
        [\<lparr>resp_content = [TextBlock ''par''], resp_metadata = None\<rparr>,
         \<lparr>resp_content = [TextBlock ''partial'', ToolUseBlock ''7'' ''search'' []],
          resp_metadata = None\<rparr>]
        (Some CancelledError))"


text \<open>The fields of the agent that a reasoning or acting step never writes.\<close>

definition same_setup :: "'p agent \<Rightarrow> 'p agent \<Rightarrow> bool" where
  "same_setup s s' =
     (required_structured_model s' = required_structured_model s
      \<and> the_toolkit s' = the_toolkit s \<and> name s' = name s)"

text \<open>The result turn of a finishing tool call whose arguments failed validation.\<close>

definition validation_error_turn :: "nat \<Rightarrow> tool_use \<Rightarrow> string \<Rightarrow> msg" where
  "validation_error_turn i tool_call err =
     \<lparr>msg_id = i, msg_name = ''system'',
      msg_content = [ToolResultBlock (tu_id tool_call) (tu_name tool_call)
                       (OutBlocks [PText (validation_error_text @ err)])],
      msg_role = System, msg_metadata = JNull\<rparr>"


definition empty_schema :: schema where
  "empty_schema = Schema (\<lambda>d. Inr [])"

definition finish_call :: "string \<Rightarrow> dict \<Rightarrow> block" where
  "finish_call i args = ToolUseBlock i finish_function_name args"

text \<open>
  A model that answers every call that offers tools with the same blocks, and the call
  without tools (the forced summary) with a text.
\<close>

definition scripted_model :: "block list \<Rightarrow> msg list \<Rightarrow> model_args \<Rightarrow> llm_result" where
  "scripted_model blocks =
     (\<lambda>p a. LlmFull
        \<lparr>resp_content = (if arg_tools a = [] then [TextBlock ''summary''] else blocks),
         resp_metadata = None\<rparr> None)"

definition user_turn :: msg where
  "user_turn = text_msg 0 ''user'' User ''question''"



section \<open>Memory compaction: the candidate range\<close>

lemma fold_insert_union: "fold insert xs acc = acc \<union> set xs"
  by (induction xs arbitrary: acc) auto

lemma fold_remove_diff: "fold (\<lambda>i a. if i \<in> a then a - {i} else a) xs acc = acc - set xs"
  by (induction xs arbitrary: acc) auto

lemma add_result_ids_eq: "add_result_ids m acc = acc \<union> set (tool_result_ids m)"
  by (simp add: add_result_ids_def fold_insert_union)

lemma remove_use_ids_eq: "remove_use_ids m acc = acc - set (tool_use_ids m)"
  by (simp add: remove_use_ids_def fold_remove_diff)

text \<open>
  C1. With \<open>keep_recent = 2\<close> and the view \<open>[A, B, C, D]\<close>, where \<open>D\<close> carries no tool
  result, \<open>C\<close> carries tool results for the identifier \<open>i\<close> only and does not request it,
  and \<open>B\<close> requests \<open>i\<close> and carries no tool result, the candidate range is exactly
  \<open>[A]\<close>: \<open>D\<close> is the first retained unit, \<open>B\<close> and \<open>C\<close> together are the second, and the
  candidate is not \<open>[A, B]\<close>. Nothing is asked of \<open>A\<close>.
\<close>

theorem candidate_keeps_tool_pair_together:
  assumes "tool_result_ids D = []"
      and "set (tool_result_ids C) = {i}" and "i \<notin> set (tool_use_ids C)"
      and "tool_result_ids B = []" and "i \<in> set (tool_use_ids B)"
  shows "compaction_candidate 2 [A, B, C, D] = [A]
         \<and> compaction_candidate 2 [A, B, C, D] \<noteq> [A, B]"
  using assms
  by (auto simp: compaction_candidate_def add_result_ids_eq remove_use_ids_eq Let_def)

theorem candidate_keeps_tool_pair_together_witness:
  "compaction_candidate 2
     [text_msg 0 ''user'' User ''A'',
      blocks_msg 1 ''Friday'' Assistant [ToolUseBlock ''1'' ''search'' []],
      blocks_msg 2 ''system'' System [ToolResultBlock ''1'' ''search'' (OutStr ''ok'')],
      text_msg 3 ''Friday'' Assistant ''D'']
   = [text_msg 0 ''user'' User ''A'']"
  using candidate_keeps_tool_pair_together
    [of "text_msg 3 ''Friday'' Assistant ''D''"
        "blocks_msg 2 ''system'' System [ToolResultBlock ''1'' ''search'' (OutStr ''ok'')]"
        "''1''"
        "blocks_msg 1 ''Friday'' Assistant [ToolUseBlock ''1'' ''search'' []]"
        "text_msg 0 ''user'' User ''A''"]
  by (simp add: text_msg_def blocks_msg_def tool_result_ids_def tool_use_ids_def
        tool_use_blocks_def)

lemma keep_walk_short:
  "n + int (length xs) < k \<Longrightarrow> keep_walk k n acc xs = None"
proof (induction xs arbitrary: n acc)
  case Nil
  then show ?case by simp
next
  case (Cons m older)
  let ?acc = "remove_use_ids m (add_result_ids m acc)"
  let ?n = "if ?acc = {} then n + 1 else n"
  have "?n + int (length older) < k" using Cons.prems by auto
  then have "keep_walk k ?n ?acc older = None" by (rule Cons.IH)
  moreover have "\<not> ?n \<ge> k" using Cons.prems by auto
  ultimately show ?case by (simp add: Let_def)
qed

text \<open>A view with fewer turns than \<open>keep_recent\<close> is the candidate range as a whole.\<close>

lemma candidate_is_whole_short_view:
  "int (length view) < k \<Longrightarrow> compaction_candidate k view = view"
  using keep_walk_short [of 0 "rev view" k "{}"] by (simp add: compaction_candidate_def)

text \<open>
  C4. A view of a single text turn holds one unit, fewer than \<open>keep_recent = 3\<close>. The
  backward walk ends without reaching \<^verbatim>\<open>break\<close>, the candidate range stays the whole view,
  and with a token cost of 500 above the threshold of 400 the engine stores a summary and
  marks the turn compressed.
\<close>

theorem compaction_takes_view_shorter_than_keep_recent:
  "compaction_candidate 3 [text_msg 0 ''user'' User ''A''] = [text_msg 0 ''user'' User ''A'']
   \<and> memory (snd (compress_memory_if_needed
        ((demo_agent (summary_reply (Some [(''task_overview'', JStr ''S'')])))
           \<lparr>compression_cfg := Some (demo_compression 500 3),
            memory := mem_add [text_msg 0 ''user'' User ''A''] None empty_memory\<rparr>)))
     = \<lparr>entries = [(text_msg 0 ''user'' User ''A'', Some COMPRESSED)],
        compressed_summary = Some ''S''\<rparr>"
  by (simp add: compress_memory_if_needed_def demo_agent_def demo_compression_def
        summary_reply_def mem_add_def empty_memory_def get_memory_def
        compaction_candidate_def text_msg_def add_result_ids_eq remove_use_ids_eq
        tool_result_ids_def tool_use_ids_def tool_use_blocks_def new_msg_def
        summarization_call_def store_summary_def Let_def effective_compression_model_def
        effective_compression_formatter_def plain_call_def update_messages_mark_def
        update_compressed_summary_def)

section \<open>Memory compaction: a summarization without structured metadata\<close>

lemma new_msg_memory: "memory (snd (new_msg n c r md self)) = memory self"
  by (simp add: new_msg_def)

lemma summarization_call_memory:
  "memory (snd (summarization_call cfg ms self)) = memory self"
  by (simp add: summarization_call_def new_msg_def Let_def split_beta)

lemma summarization_call_result:
  "\<exists>p a. fst (summarization_call cfg ms self) = effective_compression_model self cfg p a"
  by (auto simp: summarization_call_def new_msg_def Let_def split_beta)

lemma store_summary_no_metadata:
  "structured_metadata_of res = None \<Longrightarrow> snd (store_summary cfg ms res self) = self"
  by (auto simp: store_summary_def structured_metadata_of_def
           split: sum.splits option.splits if_splits)

text \<open>
  C9. If the summarization model returns no structured metadata, whatever prompt it is
  given, \<^verbatim>\<open>_compress_memory_if_needed\<close> leaves the memory as it was: the summary slot and
  every turn with its mark are unchanged, so the view the next trigger starts from is the
  same.
\<close>

theorem compression_without_metadata_keeps_memory:
  assumes "compression_cfg self = Some cfg"
      and "\<And>p a. structured_metadata_of (effective_compression_model self cfg p a) = None"
  shows "memory (snd (compress_memory_if_needed self)) = memory self
         \<and> get_memory (Some COMPRESSED) (memory (snd (compress_memory_if_needed self)))
             = get_memory (Some COMPRESSED) (memory self)"
proof -
  let ?cand = "compaction_candidate (keep_recent cfg)
                 (get_memory (Some COMPRESSED) (memory self))"
  let ?self1 = "snd (new_msg ''system'' [TextBlock (sys_prompt self)] System JNull self)"
  obtain res self2 where call: "summarization_call cfg ?cand ?self1 = (res, self2)"
    by (cases "summarization_call cfg ?cand ?self1")
  have mem2: "memory self2 = memory self"
    using summarization_call_memory [of cfg ?cand ?self1] call by (simp add: new_msg_memory)
  have "effective_compression_model ?self1 cfg = effective_compression_model self cfg"
    by (simp add: effective_compression_model_def new_msg_def split: option.splits)
  then have "structured_metadata_of res = None"
    using summarization_call_result [of cfg ?cand ?self1] call assms(2) by auto
  then have "snd (store_summary cfg ?cand res self2) = self2"
    by (rule store_summary_no_metadata)
  then have "memory (snd (compress_memory_if_needed self)) = memory self"
    using mem2 call
    by (simp add: compress_memory_if_needed_def assms(1) Let_def new_msg_memory split_beta)
  then show ?thesis by simp
qed

theorem compression_without_metadata_keeps_memory_witness:
  "memory (snd (compress_memory_if_needed
     ((demo_agent (summary_reply None))
        \<lparr>compression_cfg := Some (demo_compression 500 1),
         memory := mem_add [text_msg 0 ''user'' User ''A'', text_msg 1 ''Friday'' Assistant ''B'']
                     None empty_memory\<rparr>)))
   = mem_add [text_msg 0 ''user'' User ''A'', text_msg 1 ''Friday'' Assistant ''B'']
       None empty_memory"
  using compression_without_metadata_keeps_memory
    [of "(demo_agent (summary_reply None))
           \<lparr>compression_cfg := Some (demo_compression 500 1),
            memory := mem_add [text_msg 0 ''user'' User ''A'',
                               text_msg 1 ''Friday'' Assistant ''B''] None empty_memory\<rparr>"
        "demo_compression 500 1"]
  by (simp add: demo_agent_def summary_reply_def structured_metadata_of_def
        effective_compression_model_def demo_compression_def)

section \<open>The tool invocation coordinator\<close>

text \<open>
  C5. Whatever the tool does (the call raises, the stream ends, raises or reports an
  interruption, or the finishing tool succeeds), \<^verbatim>\<open>_acting\<close> appends exactly one turn to
  the log, and that turn holds one tool result block with the identifier and the name of
  the request.
\<close>

theorem acting_appends_one_result:
  "\<exists>output.
     entries (memory (snd (acting tool_call self)))
     = entries (memory self)
       @ [(\<lparr>msg_id = next_id self, msg_name = ''system'',
            msg_content = [ToolResultBlock (tu_id tool_call) (tu_name tool_call) output],
            msg_role = System, msg_metadata = JNull\<rparr>, None)]"
  by (simp add: acting_def new_msg_def mem_add_def Let_def split_beta)

section \<open>Prompts, hints and cancellation in the reasoning step\<close>

lemmas reasoning_eval =
  reasoning_def reasoning_call_def reasoning_prompt_msgs_def add_plan_hint_def
  record_reasoning_def new_msg_def mem_add_def mem_clear_def get_memory_def sys_prompt_def
  enter_tts_context_def demo_agent_def demo_toolkit_def empty_memory_def text_msg_def
  Let_def split_beta

text \<open>Every turn of the log, whatever its mark, is among the messages of the prompt.\<close>

lemma reasoning_prompt_holds_every_turn:
  "e \<in> set (entries (memory self)) \<Longrightarrow> fst e \<in> set (fst (reasoning_prompt_msgs self))"
  by (auto simp: reasoning_prompt_msgs_def new_msg_def get_memory_def Let_def split_beta)

text \<open>
  C2. The log holds a turn marked compressed (\<open>old\<close>) and an unmarked turn (\<open>new\<close>). The
  messages \<^verbatim>\<open>_reasoning\<close> formats into its prompt are the system message and both turns:
  \<^verbatim>\<open>memory.get_memory()\<close> is called without \<^verbatim>\<open>exclude_mark\<close>. The model that echoes its
  prompt answers with the text of the compressed turn.
\<close>

theorem reasoning_prompt_includes_compressed_turn:
  "fst (reasoning_prompt_msgs ((demo_agent echo_model)\<lparr>memory := compressed_log\<rparr>))
   = [text_msg 100 ''system'' System ''You are a helpful assistant.'',
      text_msg 0 ''user'' User ''old'', text_msg 1 ''user'' User ''new'']
   \<and> fst (reasoning None ((demo_agent echo_model)\<lparr>memory := compressed_log\<rparr>))
     = Inr \<lparr>msg_id = 101, msg_name = ''Friday'',
            msg_content = [TextBlock ''You are a helpful assistant.'', TextBlock ''old'',
                           TextBlock ''new''],
            msg_role = Assistant, msg_metadata = JNull\<rparr>"
  by (simp add: reasoning_eval echo_model_def compressed_log_def)

lemma fake_tool_results_hints:
  "reasoning_hint_msgs (fake_tool_results tcs self) = reasoning_hint_msgs self"
proof (induction tcs arbitrary: self)
  case Nil
  show ?case by simp
next
  case (Cons tc tcs)
  let ?s = "(snd (new_msg ''system'' (interrupted_result tc) System JNull self))
             \<lparr>memory := mem_add [fst (new_msg ''system'' (interrupted_result tc) System JNull self)]
                          None (memory self)\<rparr>"
  have "fake_tool_results (tc # tcs) self = fake_tool_results tcs ?s"
    by (simp add: interrupted_result_def new_msg_def split_beta Let_def)
  then show ?case using Cons.IH [of ?s] by (simp add: new_msg_def)
qed

lemma record_reasoning_hints:
  "reasoning_hint_msgs (snd (record_reasoning c e self)) = reasoning_hint_msgs self"
  by (simp add: record_reasoning_def new_msg_def Let_def split_beta fake_tool_results_hints
           split: option.splits)

lemma consume_response_hints:
  "reasoning_hint_msgs (snd (consume_response res self)) = reasoning_hint_msgs self"
  by (cases res) (simp_all add: record_reasoning_hints split: option.splits)

text \<open>
  The hint messages themselves are empty after every reasoning step that reaches its
  model call, however the call and the consumption of its response end.
\<close>

lemma hint_msgs_empty_after_reasoning:
  "entries (reasoning_hint_msgs (snd (reasoning tool_choice self))) = []"
  by (simp add: reasoning_def split_beta consume_response_hints reasoning_call_def Let_def
        mem_clear_def)

text \<open>
  C3. The plan tracker gives a guidance turn before the first reasoning step. After that
  step the hint messages (\<^verbatim>\<open>_reasoning_hint_msgs\<close>) are empty, but the guidance turn was
  added to the log itself with the mark \<^verbatim>\<open>HINT\<close>; nothing removes it, and the prompt of
  the second reasoning step holds it again.
\<close>

theorem plan_hint_stays_in_later_prompts:
  "entries (reasoning_hint_msgs
      (snd (reasoning None ((demo_agent echo_model)\<lparr>plan_notebook := Some first_step_hint\<rparr>))))
   = []
   \<and> entries (memory
        (snd (reasoning None ((demo_agent echo_model)\<lparr>plan_notebook := Some first_step_hint\<rparr>))))
     = [(text_msg 100 ''user'' User ''plan hint'', Some HINT),
        (\<lparr>msg_id = 102, msg_name = ''Friday'',
          msg_content = [TextBlock ''You are a helpful assistant.'', TextBlock ''plan hint''],
          msg_role = Assistant, msg_metadata = JNull\<rparr>, None)]
   \<and> map msg_content
        (fst (reasoning_prompt_msgs (add_plan_hint
           (snd (reasoning None
              ((demo_agent echo_model)\<lparr>plan_notebook := Some first_step_hint\<rparr>))))))
     = [[TextBlock ''You are a helpful assistant.''], [TextBlock ''plan hint''],
        [TextBlock ''You are a helpful assistant.'', TextBlock ''plan hint'']]"
  by (simp add: reasoning_eval echo_model_def first_step_hint_def)

lemma fake_tool_results_entries:
  "\<exists>results. entries (memory (fake_tool_results tcs self)) = entries (memory self) @ results
     \<and> map (\<lambda>e. (msg_content (fst e), snd e)) results
         = map (\<lambda>tc. (interrupted_result tc, None)) tcs"
proof (induction tcs arbitrary: self)
  case Nil
  then show ?case by simp
next
  case (Cons tc tcs)
  let ?m = "fst (new_msg ''system'' (interrupted_result tc) System JNull self)"
  let ?s = "(snd (new_msg ''system'' (interrupted_result tc) System JNull self))
             \<lparr>memory := mem_add [?m] None (memory self)\<rparr>"
  obtain results where r:
    "entries (memory (fake_tool_results tcs ?s)) = entries (memory ?s) @ results"
    "map (\<lambda>e. (msg_content (fst e), snd e)) results
       = map (\<lambda>tc. (interrupted_result tc, None)) tcs"
    using Cons.IH [of ?s] by blast
  have "fake_tool_results (tc # tcs) self = fake_tool_results tcs ?s"
    by (simp add: interrupted_result_def new_msg_def split_beta Let_def)
  moreover have "entries (memory ?s) = entries (memory self) @ [(?m, None)]"
    by (simp add: mem_add_def)
  moreover have "msg_content ?m = interrupted_result tc"
    by (simp add: new_msg_def)
  ultimately show ?case using r
    by (intro exI [of _ "(?m, None) # results"]) simp
qed

text \<open>
  C6, as stated, fails: for an agent without a plan tracker, a cancellation raised while
  the model call itself is awaited (before the \<^verbatim>\<open>try\<close> block) propagates and leaves the
  log as it was; no assistant turn is added.
\<close>

theorem cancelled_model_call_appends_nothing:
  "fst (reasoning_call None
          ((demo_agent (\<lambda>p a. LlmRaises CancelledError))\<lparr>memory := compressed_log\<rparr>))
   = LlmRaises CancelledError
   \<and> fst (reasoning None
            ((demo_agent (\<lambda>p a. LlmRaises CancelledError))\<lparr>memory := compressed_log\<rparr>))
     = Inl CancelledError
   \<and> memory (snd (reasoning None
            ((demo_agent (\<lambda>p a. LlmRaises CancelledError))\<lparr>memory := compressed_log\<rparr>)))
     = compressed_log"
  by (simp add: reasoning_eval compressed_log_def)

lemma reasoning_call_memory:
  "memory (snd (reasoning_call tool_choice self)) = memory (add_plan_hint self)"
  by (simp add: reasoning_call_def reasoning_prompt_msgs_def new_msg_def Let_def split_beta)

lemma reasoning_call_tts:
  "enter_tts_context (snd (reasoning_call tool_choice self)) = enter_tts_context self"
  by (simp add: reasoning_call_def reasoning_prompt_msgs_def add_plan_hint_def new_msg_def
        enter_tts_context_def Let_def split_beta split: option.splits)

lemma add_plan_hint_entries:
  "entries (memory (add_plan_hint self)) = entries (memory self) @ plan_hint_turns self"
  by (simp add: add_plan_hint_def plan_hint_turns_def new_msg_def mem_add_def Let_def
        split_beta split: option.splits)

lemma reasoning_call_entries:
  "entries (memory (snd (reasoning_call tool_choice self)))
   = entries (memory self) @ plan_hint_turns self"
  by (simp add: reasoning_call_memory add_plan_hint_entries)

lemma cancelled_before_message:
  assumes "fst (reasoning_call tool_choice self) = LlmRaises CancelledError
           \<or> (response_content (fst (reasoning_call tool_choice self)) \<noteq> None
               \<and> enter_tts_context self = Some CancelledError)"
  shows "reasoning tool_choice self = (Inl CancelledError, snd (reasoning_call tool_choice self))"
proof -
  let ?res = "fst (reasoning_call tool_choice self)"
  let ?self1 = "snd (reasoning_call tool_choice self)"
  have "consume_response ?res ?self1 = (Inl CancelledError, ?self1)"
    using assms reasoning_call_tts [of tool_choice self] by (cases ?res) auto
  then show ?thesis by (simp add: reasoning_def split_beta)
qed

lemma cancelled_after_message:
  assumes "response_content (fst (reasoning_call tool_choice self)) = Some content"
      and "enter_tts_context self = None"
      and "response_ending (fst (reasoning_call tool_choice self)) = Some CancelledError"
  shows "\<exists>m results.
           fst (reasoning tool_choice self) = Inl CancelledError
         \<and> entries (memory (snd (reasoning tool_choice self)))
             = entries (memory (snd (reasoning_call tool_choice self))) @ (m, None) # results
         \<and> msg_content m = content
         \<and> map (\<lambda>e. (msg_content (fst e), snd e)) results
             = map (\<lambda>tc. (interrupted_result tc, None)) (tool_use_blocks m)"
proof -
  let ?res = "fst (reasoning_call tool_choice self)"
  let ?self1 = "snd (reasoning_call tool_choice self)"
  let ?m = "fst (new_msg (name ?self1) content Assistant JNull ?self1)"
  let ?s = "(snd (new_msg (name ?self1) content Assistant JNull ?self1))
              \<lparr>memory := mem_add [?m] None (memory ?self1)\<rparr>"
  have cons: "consume_response ?res ?self1
              = record_reasoning content (Some CancelledError) ?self1"
    using assms reasoning_call_tts [of tool_choice self] by (cases ?res) auto
  have rec: "record_reasoning content (Some CancelledError) ?self1
             = (Inl CancelledError, fake_tool_results (tool_use_blocks ?m) ?s)"
    by (simp add: record_reasoning_def new_msg_def split_beta Let_def)
  obtain results where r:
    "entries (memory (fake_tool_results (tool_use_blocks ?m) ?s))
       = entries (memory ?s) @ results"
    "map (\<lambda>e. (msg_content (fst e), snd e)) results
       = map (\<lambda>tc. (interrupted_result tc, None)) (tool_use_blocks ?m)"
    using fake_tool_results_entries [of "tool_use_blocks ?m" ?s] by blast
  have "entries (memory ?s) = entries (memory ?self1) @ [(?m, None)]"
    by (simp add: mem_add_def)
  moreover have "msg_content ?m = content" by (simp add: new_msg_def)
  moreover have "reasoning tool_choice self
                 = (Inl CancelledError, fake_tool_results (tool_use_blocks ?m) ?s)"
    using cons rec by (simp add: reasoning_def split_beta)
  ultimately show ?thesis using r
    by (intro exI [of _ ?m] exI [of _ results]) simp
qed

text \<open>
  C6, amended. Before it calls the model, a reasoning step adds to the log the plan
  tracker's guidance turn, if the tracker gives one, and nothing else. If the model
  call has returned, the speech synthesis context has been entered and a cancellation is
  then raised while the response is consumed, the step ends with that cancellation and
  the log has grown further by exactly the assistant turn, with the content received so
  far, followed by one interrupted result turn for each tool request of that turn, in
  order. If the cancellation is raised earlier, by the model call itself or on entering
  the speech synthesis context, the step ends with that cancellation and the log has
  grown by nothing further: no assistant turn and no result turn is added.
\<close>

theorem cancelled_reasoning_step_log:
  "(response_content (fst (reasoning_call tool_choice self)) = Some content
      \<and> enter_tts_context self = None
      \<and> response_ending (fst (reasoning_call tool_choice self)) = Some CancelledError
    \<longrightarrow> (\<exists>m results.
           fst (reasoning tool_choice self) = Inl CancelledError
         \<and> entries (memory (snd (reasoning tool_choice self)))
             = entries (memory self) @ plan_hint_turns self @ (m, None) # results
         \<and> msg_content m = content
         \<and> map (\<lambda>e. (msg_content (fst e), snd e)) results
             = map (\<lambda>tc. (interrupted_result tc, None)) (tool_use_blocks m)))
   \<and> (fst (reasoning_call tool_choice self) = LlmRaises CancelledError
        \<or> (response_content (fst (reasoning_call tool_choice self)) \<noteq> None
            \<and> enter_tts_context self = Some CancelledError)
      \<longrightarrow> fst (reasoning tool_choice self) = Inl CancelledError
          \<and> entries (memory (snd (reasoning tool_choice self)))
              = entries (memory self) @ plan_hint_turns self
          \<and> compressed_summary (memory (snd (reasoning tool_choice self)))
              = compressed_summary (memory self))"
proof (intro conjI impI)
  assume h: "response_content (fst (reasoning_call tool_choice self)) = Some content
      \<and> enter_tts_context self = None
      \<and> response_ending (fst (reasoning_call tool_choice self)) = Some CancelledError"
  from cancelled_after_message [of tool_choice self content] h
  show "\<exists>m results.
           fst (reasoning tool_choice self) = Inl CancelledError
         \<and> entries (memory (snd (reasoning tool_choice self)))
             = entries (memory self) @ plan_hint_turns self @ (m, None) # results
         \<and> msg_content m = content
         \<and> map (\<lambda>e. (msg_content (fst e), snd e)) results
             = map (\<lambda>tc. (interrupted_result tc, None)) (tool_use_blocks m)"
    by (simp add: reasoning_call_entries)
next
  assume h: "fst (reasoning_call tool_choice self) = LlmRaises CancelledError
        \<or> (response_content (fst (reasoning_call tool_choice self)) \<noteq> None
            \<and> enter_tts_context self = Some CancelledError)"
  have r: "reasoning tool_choice self
           = (Inl CancelledError, snd (reasoning_call tool_choice self))"
    using cancelled_before_message [OF h] .
  show "fst (reasoning tool_choice self) = Inl CancelledError" by (simp add: r)
  show "entries (memory (snd (reasoning tool_choice self)))
        = entries (memory self) @ plan_hint_turns self"
    by (simp add: r reasoning_call_entries)
  show "compressed_summary (memory (snd (reasoning tool_choice self)))
        = compressed_summary (memory self)"
    by (simp add: r reasoning_call_memory add_plan_hint_def new_msg_def mem_add_def Let_def
          split_beta split: option.splits)
qed

theorem cancelled_reasoning_step_log_witness:
  "fst (reasoning None (demo_agent cancelled_stream)) = Inl CancelledError
   \<and> map (\<lambda>e. (msg_content (fst e), snd e))
        (entries (memory (snd (reasoning None (demo_agent cancelled_stream)))))
     = [([TextBlock ''partial'', ToolUseBlock ''7'' ''search'' []], None),
        ([ToolResultBlock ''7'' ''search'' (OutStr interrupted_text)], None)]
   \<and> fst (reasoning None
        ((demo_agent (\<lambda>p a. LlmRaises CancelledError))
           \<lparr>plan_notebook := Some first_step_hint\<rparr>)) = Inl CancelledError
   \<and> entries (memory (snd (reasoning None
        ((demo_agent (\<lambda>p a. LlmRaises CancelledError))
           \<lparr>plan_notebook := Some first_step_hint\<rparr>))))
     = [(text_msg 100 ''user'' User ''plan hint'', Some HINT)]
   \<and> fst (reasoning None
        ((demo_agent cancelled_stream)
           \<lparr>tts_model := Some \<lparr>tts_enter = Some CancelledError\<rparr>\<rparr>)) = Inl CancelledError
   \<and> entries (memory (snd (reasoning None
        ((demo_agent cancelled_stream)
           \<lparr>tts_model := Some \<lparr>tts_enter = Some CancelledError\<rparr>\<rparr>))))
     = []"
proof -
  let ?C = "(demo_agent cancelled_stream)
              \<lparr>tts_model := Some \<lparr>tts_enter = Some CancelledError\<rparr>\<rparr>"
  let ?A = "demo_agent cancelled_stream"
  let ?B = "(demo_agent (\<lambda>p a. LlmRaises CancelledError))
              \<lparr>plan_notebook := Some first_step_hint\<rparr>"
  let ?c = "[TextBlock ''partial'', ToolUseBlock ''7'' ''search'' []]"
  have h1: "response_content (fst (reasoning_call None ?A)) = Some ?c"
    by (simp add: reasoning_eval cancelled_stream_def last_content_def)
  have h2: "enter_tts_context ?A = None"
    by (simp add: enter_tts_context_def demo_agent_def)
  have h3: "response_ending (fst (reasoning_call None ?A)) = Some CancelledError"
    by (simp add: reasoning_eval cancelled_stream_def)
  have h4: "entries (memory ?A) @ plan_hint_turns ?A = []"
    by (simp add: plan_hint_turns_def demo_agent_def empty_memory_def)
  from cancelled_reasoning_step_log [of None ?A ?c] h1 h2 h3 obtain m results where a:
    "fst (reasoning None ?A) = Inl CancelledError"
    "entries (memory (snd (reasoning None ?A)))
       = entries (memory ?A) @ plan_hint_turns ?A @ (m, None) # results"
    "msg_content m = ?c"
    "map (\<lambda>e. (msg_content (fst e), snd e)) results
       = map (\<lambda>tc. (interrupted_result tc, None)) (tool_use_blocks m)"
    by blast
  have a': "map (\<lambda>e. (msg_content (fst e), snd e)) (entries (memory (snd (reasoning None ?A))))
            = [(?c, None), ([ToolResultBlock ''7'' ''search'' (OutStr interrupted_text)], None)]"
    using a h4 by (simp add: tool_use_blocks_def interrupted_result_def)
  have k1: "fst (reasoning_call None ?B) = LlmRaises CancelledError"
    by (simp add: reasoning_eval first_step_hint_def)
  have k2: "entries (memory ?B) @ plan_hint_turns ?B
            = [(text_msg 100 ''user'' User ''plan hint'', Some HINT)]"
    by (simp add: plan_hint_turns_def demo_agent_def empty_memory_def first_step_hint_def
          text_msg_def)
  from cancelled_reasoning_step_log [of None ?B] k1
  have b: "fst (reasoning None ?B) = Inl CancelledError"
          "entries (memory (snd (reasoning None ?B)))
           = entries (memory ?B) @ plan_hint_turns ?B"
    by blast+
  have t1: "response_content (fst (reasoning_call None ?C)) \<noteq> None"
    by (simp add: reasoning_eval cancelled_stream_def)
  have t2: "enter_tts_context ?C = Some CancelledError"
    by (simp add: enter_tts_context_def demo_agent_def)
  have t3: "entries (memory ?C) @ plan_hint_turns ?C = []"
    by (simp add: plan_hint_turns_def demo_agent_def empty_memory_def)
  from cancelled_reasoning_step_log [of None ?C] t1 t2
  have c: "fst (reasoning None ?C) = Inl CancelledError"
          "entries (memory (snd (reasoning None ?C)))
           = entries (memory ?C) @ plan_hint_turns ?C"
    by blast+
  show ?thesis using a(1) a' b k2 c t3 by simp
qed

section \<open>What a reasoning or acting step leaves alone\<close>

lemma same_setup_refl: "same_setup s s"
  by (simp add: same_setup_def)

lemma same_setup_trans: "same_setup a b \<Longrightarrow> same_setup b c \<Longrightarrow> same_setup a c"
  by (simp add: same_setup_def)

lemma fake_tool_results_setup: "same_setup self (fake_tool_results tcs self)"
proof (induction tcs arbitrary: self)
  case Nil
  show ?case by (simp add: same_setup_refl)
next
  case (Cons tc tcs)
  let ?s = "(snd (new_msg ''system'' (interrupted_result tc) System JNull self))
             \<lparr>memory := mem_add [fst (new_msg ''system'' (interrupted_result tc) System JNull self)] None (memory self)\<rparr>"
  have "fake_tool_results (tc # tcs) self = fake_tool_results tcs ?s"
    by (simp add: interrupted_result_def new_msg_def split_beta Let_def)
  moreover have "same_setup self ?s" by (simp add: same_setup_def new_msg_def)
  ultimately show ?case using Cons.IH [of ?s] by (simp add: same_setup_def)
qed


lemma add_plan_hint_setup: "same_setup self (add_plan_hint self)"
  by (simp add: same_setup_def add_plan_hint_def new_msg_def Let_def split_beta split: option.splits)


lemma reasoning_call_setup: "same_setup self (snd (reasoning_call tc self))"
  using add_plan_hint_setup [of self]
  by (simp add: same_setup_def reasoning_call_def reasoning_prompt_msgs_def new_msg_def Let_def split_beta)


lemma record_reasoning_setup: "same_setup self (snd (record_reasoning c e self))"
proof -
  let ?m = "fst (new_msg (name self) c Assistant JNull self)"
  let ?s = "(snd (new_msg (name self) c Assistant JNull self))\<lparr>memory := mem_add [?m] None (memory self)\<rparr>"
  have a: "same_setup self ?s" by (simp add: same_setup_def new_msg_def)
  have "snd (record_reasoning c e self) = ?s \<or> snd (record_reasoning c e self) = fake_tool_results (tool_use_blocks ?m) ?s"
    by (simp add: record_reasoning_def new_msg_def Let_def split_beta split: option.splits)
  then show ?thesis using a fake_tool_results_setup [of ?s "tool_use_blocks ?m"]
    by (auto simp: same_setup_def)
qed


lemma consume_response_setup: "same_setup self (snd (consume_response res self))"
  by (cases res) (simp_all add: same_setup_refl record_reasoning_setup split: option.splits)


lemma reasoning_setup: "same_setup self (snd (reasoning tc self))"
  using reasoning_call_setup [of self tc]
    consume_response_setup [of "snd (reasoning_call tc self)" "fst (reasoning_call tc self)"]
  by (simp add: reasoning_def split_beta same_setup_def)


lemma acting_setup: "same_setup self (snd (acting tool_call self))"
  by (simp add: same_setup_def acting_def new_msg_def Let_def split_beta)


lemma acting_all_Cons:
  "acting_all (tc # tcs) self =
     (case fst (acting tc self) of
        Inl e \<Rightarrow> (Inl e, snd (acting tc self))
      | Inr out \<Rightarrow>
          (case fst (acting_all tcs (snd (acting tc self))) of
             Inl e \<Rightarrow> (Inl e, snd (acting_all tcs (snd (acting tc self))))
           | Inr outs \<Rightarrow> (Inr (out # outs), snd (acting_all tcs (snd (acting tc self))))))"
  by (cases "acting tc self"; cases "fst (acting tc self)";
      cases "acting_all tcs (snd (acting tc self))";
      cases "fst (acting_all tcs (snd (acting tc self)))") simp_all

lemma acting_all_snd:
  "snd (acting_all (tc # tcs) self) = snd (acting tc self)
   \<or> snd (acting_all (tc # tcs) self) = snd (acting_all tcs (snd (acting tc self)))"
  by (simp only: acting_all_Cons split: sum.splits) simp

lemma acting_all_setup: "same_setup self (snd (acting_all tcs self))"
proof (induction tcs arbitrary: self)
  case Nil
  show ?case by (simp add: same_setup_refl)
next
  case (Cons tc tcs)
  show ?case
    using acting_setup [of self tc] Cons.IH [of "snd (acting tc self)"]
      acting_all_snd [of tc tcs self]
    by (auto simp: same_setup_def)
qed


lemma acting_all_Inr_Cons:
  assumes "fst (acting_all (tc # tcs) self) = Inr outs"
  shows "\<exists>out outs'. fst (acting tc self) = Inr out
           \<and> fst (acting_all tcs (snd (acting tc self))) = Inr outs'
           \<and> outs = out # outs'
           \<and> snd (acting_all (tc # tcs) self) = snd (acting_all tcs (snd (acting tc self)))"
  using assms by (simp only: acting_all_Cons split: sum.splits) auto




lemma acting_invalid_finish:
  assumes "required_structured_model self = Some sm"
      and "validate sm (tu_input tc) = Inl err"
      and "tu_name tc = finish_function_name"
      and "finish_function_name \<in> set (tools (the_toolkit self))"
  shows "fst (acting tc self) = Inr JNull"
    and "entries (memory (snd (acting tc self)))
         = entries (memory self) @ [(validation_error_turn (next_id self) tc err, None)]"
  using assms
  by (simp_all add: acting_def call_tool_function_def new_msg_def mem_add_def Let_def split_beta
        generate_response_def chunk_success_def dict_get_def validation_error_turn_def)


lemma reply_loop_Suc:
  assumes "fst (reasoning tc self) = Inr m"
      and "fst (acting_all (tool_use_blocks m) (snd (reasoning tc self))) = Inr outs"
  shows "reply_loop (Suc n) tc so self =
     (case check_exit m outs tc so (snd (acting_all (tool_use_blocks m) (snd (reasoning tc self)))) of
        ((Some reply_msg, _, so'), self3) \<Rightarrow> (Inr (Some reply_msg, so', 1), self3)
      | ((None, tc', so'), self3) \<Rightarrow>
          (case reply_loop n tc' so' self3 of
             (Inl e, self4) \<Rightarrow> (Inl e, self4)
           | (Inr (r, so'', k), self4) \<Rightarrow> (Inr (r, so'', Suc k), self4)))"
proof -
  obtain s1 where a: "reasoning tc self = (Inr m, s1)"
    using assms(1) by (cases "reasoning tc self") auto
  obtain s2 where b: "acting_all (tool_use_blocks m) s1 = (Inr outs, s2)"
    using assms(2) a by (cases "acting_all (tool_use_blocks m) s1") auto
  show ?thesis by (simp add: a b)
qed

section \<open>The reasoning-acting loop\<close>

lemma reply_loop_numeral:
  "reply_loop (numeral k) tc so self = reply_loop (Suc (pred_numeral k)) tc so self"
  by (simp add: numeral_eq_Suc)

lemmas reply_eval =
  reply_def retrieve_from_long_term_memory_def retrieve_from_knowledge_def
  setup_structured_output_def reply_from_def finish_reply_def summarizing_def check_exit_def
  compression_enabled_def plain_call_def
  acting_def call_tool_function_def generate_response_def chunk_success_def
  chunk_structured_output_def dict_get_def has_text_def has_tool_use_def text_blocks_def
  tool_use_blocks_def finish_function_name_def scripted_model_def finish_call_def
  user_turn_def reply_loop_numeral reasoning_eval

lemma reply_loop_iterations:
  "fst (reply_loop n tc so self) = Inr (r, so', k) \<Longrightarrow> k \<le> n"
proof (induction n arbitrary: tc so self k r so')
  case 0
  then show ?case by simp
next
  case (Suc n)
  show ?case
  proof (cases "fst (reasoning tc self)")
    case (Inl e)
    then have "reasoning tc self = (Inl e, snd (reasoning tc self))"
      by (metis prod.collapse)
    then have "fst (reply_loop (Suc n) tc so self) = Inl e"
      by (cases "reasoning tc self") simp
    then show ?thesis using Suc.prems by simp
  next
    case (Inr m)
    let ?s1 = "snd (reasoning tc self)"
    show ?thesis
    proof (cases "fst (acting_all (tool_use_blocks m) ?s1)")
      case (Inl e)
      obtain s1 where a: "reasoning tc self = (Inr m, s1)"
        using Inr by (cases "reasoning tc self") auto
      obtain s2 where b: "acting_all (tool_use_blocks m) s1 = (Inl e, s2)"
        using Inl a by (cases "acting_all (tool_use_blocks m) s1") auto
      have "fst (reply_loop (Suc n) tc so self) = Inl e" by (simp add: a b)
      then show ?thesis using Suc.prems by simp
    next
      case outs: (Inr outs)
      let ?s2 = "snd (acting_all (tool_use_blocks m) ?s1)"
      obtain ro tc' so1 s3 where ce: "check_exit m outs tc so ?s2 = ((ro, tc', so1), s3)"
        by (metis prod.collapse)
      show ?thesis
      proof (cases ro)
        case (Some x)
        then have "reply_loop (Suc n) tc so self = (Inr (Some x, so1, 1), s3)"
          using reply_loop_Suc [where n=n and so=so, OF Inr outs] ce by simp
        then show ?thesis using Suc.prems by simp
      next
        case None
        then have eq: "reply_loop (Suc n) tc so self
                       = (case reply_loop n tc' so1 s3 of
                            (Inl e, s4) \<Rightarrow> (Inl e, s4)
                          | (Inr (r, so'', k), s4) \<Rightarrow> (Inr (r, so'', Suc k), s4))"
          using reply_loop_Suc [where n=n and so=so, OF Inr outs] ce by simp
        obtain x s4 where rl: "reply_loop n tc' so1 s3 = (x, s4)"
          by (cases "reply_loop n tc' so1 s3")
        show ?thesis
        proof (cases x)
          case (Inl e)
          then show ?thesis using eq rl Suc.prems by simp
        next
          case (Inr y)
          obtain r2 so2 k2 where y: "y = (r2, so2, k2)" by (cases y)
          have "k2 \<le> n" using Suc.IH [of tc' so1 s3 r2 so2 k2] rl Inr y by simp
          then show ?thesis using eq rl Inr y Suc.prems by simp
        qed
      qed
    qed
  qed
qed

lemma reply_from_Suc:
  assumes "fst (reasoning tc self) = Inr m"
      and "fst (acting_all (tool_use_blocks m) (snd (reasoning tc self))) = Inr outs"
  shows "reply_from (Suc n) tc so self =
     (case check_exit m outs tc so (snd (acting_all (tool_use_blocks m) (snd (reasoning tc self)))) of
        ((Some reply_msg, _, so'), self3) \<Rightarrow> finish_reply (Some reply_msg) so' self3
      | ((None, tc', so'), self3) \<Rightarrow> reply_from n tc' so' self3)"
proof -
  let ?s2 = "snd (acting_all (tool_use_blocks m) (snd (reasoning tc self)))"
  obtain ro tc' so1 s3 where ce: "check_exit m outs tc so ?s2 = ((ro, tc', so1), s3)"
    by (metis prod.collapse)
  show ?thesis
  proof (cases ro)
    case (Some x)
    then show ?thesis
      using reply_loop_Suc [where n=n and so=so, OF assms] ce by (simp add: reply_from_def)
  next
    case None
    obtain x s4 where rl: "reply_loop n tc' so1 s3 = (x, s4)"
      by (cases "reply_loop n tc' so1 s3")
    show ?thesis
    proof (cases x)
      case (Inl e)
      then show ?thesis
        using reply_loop_Suc [where n=n and so=so, OF assms] ce None rl
        by (simp add: reply_from_def)
    next
      case (Inr y)
      obtain r2 so2 k2 where y: "y = (r2, so2, k2)" by (cases y)
      show ?thesis
        using reply_loop_Suc [where n=n and so=so, OF assms] ce None rl Inr y
        by (simp add: reply_from_def)
    qed
  qed
qed

lemma reply_from_reasoning_raises:
  assumes "fst (reasoning tc self) = Inl e"
  shows "fst (reply_from (Suc n) tc so self) = Inl e"
proof -
  obtain s1 where "reasoning tc self = (Inl e, s1)"
    using assms by (cases "reasoning tc self") auto
  then show ?thesis by (simp add: reply_from_def)
qed

lemma reply_from_acting_raises:
  assumes "fst (reasoning tc self) = Inr m"
      and "fst (acting_all (tool_use_blocks m) (snd (reasoning tc self))) = Inl e"
  shows "fst (reply_from (Suc n) tc so self) = Inl e"
proof -
  obtain s1 where a: "reasoning tc self = (Inr m, s1)"
    using assms(1) by (cases "reasoning tc self") auto
  obtain s2 where b: "acting_all (tool_use_blocks m) s1 = (Inl e, s2)"
    using assms(2) a by (cases "acting_all (tool_use_blocks m) s1") auto
  show ?thesis by (simp add: reply_from_def a b)
qed

lemma finish_reply_Some:
  "finish_reply (Some x) so self = (Inr r, self') \<Longrightarrow> r = x \<and> self' = self"
  by (auto simp: finish_reply_def split: if_splits option.splits)

lemma summarizing_metadata:
  "finish_reply None so self = (Inr r, self') \<Longrightarrow> msg_metadata r = so"
proof -
  assume h: "finish_reply None so self = (Inr r, self')"
  obtain x s where sm: "summarizing self = (x, s)" by (cases "summarizing self")
  show ?thesis
    using h sm
    by (cases x) (auto simp: finish_reply_def Let_def split: if_splits option.splits)
qed

text \<open>Once no structured model is required, the reply carries the cached output.\<close>

lemma reply_from_cached_output:
  "required_structured_model self = None \<Longrightarrow> reply_from n tc so self = (Inr r, self')
   \<Longrightarrow> msg_metadata r = so"
proof (induction n arbitrary: tc self)
  case 0
  then show ?case by (simp add: reply_from_def summarizing_metadata)
next
  case (Suc n)
  show ?case
  proof (cases "fst (reasoning tc self)")
    case (Inl e)
    then show ?thesis using reply_from_reasoning_raises [OF Inl, of n so] Suc.prems(2) by simp
  next
    case (Inr m)
    let ?s1 = "snd (reasoning tc self)"
    show ?thesis
    proof (cases "fst (acting_all (tool_use_blocks m) ?s1)")
      case (Inl e)
      then show ?thesis
        using reply_from_acting_raises [OF Inr Inl, of n so] Suc.prems(2) by simp
    next
      case outs: (Inr outs)
      let ?s2 = "snd (acting_all (tool_use_blocks m) ?s1)"
      have none: "required_structured_model ?s2 = None"
        using reasoning_setup [of self tc] acting_all_setup [of ?s1 "tool_use_blocks m"]
          Suc.prems(1)
        by (simp add: same_setup_def)
      show ?thesis
      proof (cases "has_tool_use m")
        case True
        then have "check_exit m outs tc so ?s2 = ((None, tc, so), ?s2)"
          using none by (simp add: check_exit_def)
        then have "reply_from (Suc n) tc so self = reply_from n tc so ?s2"
          using reply_from_Suc [where n=n and so=so, OF Inr outs] by simp
        then show ?thesis using Suc.IH [OF none] Suc.prems(2) by simp
      next
        case False
        then have "check_exit m outs tc so ?s2
                   = ((Some (m\<lparr>msg_metadata := so\<rparr>), tc, so), ?s2)"
          using none by (simp add: check_exit_def)
        then have "reply_from (Suc n) tc so self
                   = finish_reply (Some (m\<lparr>msg_metadata := so\<rparr>)) so ?s2"
          using reply_from_Suc [where n=n and so=so, OF Inr outs] by simp
        then have "finish_reply (Some (m\<lparr>msg_metadata := so\<rparr>)) so ?s2 = (Inr r, self')"
          using Suc.prems(2) by simp
        from finish_reply_Some [OF this] show ?thesis by simp
      qed
    qed
  qed
qed

text \<open>
  In an iteration with a structured model required, a truthy structured output of the
  acting step becomes the metadata of the reply, whichever way the loop ends.
\<close>

lemma truthy_output_is_reply_metadata:
  assumes "required_structured_model self \<noteq> None"
      and "fst (reasoning tc self) = Inr m"
      and "fst (acting_all (tool_use_blocks m) (snd (reasoning tc self))) = Inr outs"
      and "filter truthy outs \<noteq> []"
      and "reply_from (Suc n) tc so self = (Inr r, self')"
  shows "msg_metadata r = last (filter truthy outs)"
proof -
  let ?s1 = "snd (reasoning tc self)"
  let ?s2 = "snd (acting_all (tool_use_blocks m) ?s1)"
  let ?so = "last (filter truthy outs)"
  have pend: "required_structured_model ?s2 \<noteq> None"
    using reasoning_setup [of self tc] acting_all_setup [of ?s1 "tool_use_blocks m"] assms(1)
    by (simp add: same_setup_def)
  show ?thesis
  proof (cases "has_text m")
    case True
    let ?r = "fst (new_msg (name ?s2) (text_blocks m) Assistant ?so ?s2)"
    have "check_exit m outs tc so ?s2
          = ((Some ?r, tc, ?so), snd (new_msg (name ?s2) (text_blocks m) Assistant ?so ?s2))"
      using pend assms(4) True by (simp add: check_exit_def Let_def split_beta)
    then have "reply_from (Suc n) tc so self
               = finish_reply (Some ?r) ?so
                   (snd (new_msg (name ?s2) (text_blocks m) Assistant ?so ?s2))"
      using reply_from_Suc [where n=n and so=so, OF assms(2) assms(3)] by simp
    then have "finish_reply (Some ?r) ?so
                 (snd (new_msg (name ?s2) (text_blocks m) Assistant ?so ?s2)) = (Inr r, self')"
      using assms(5) by simp
    from finish_reply_Some [OF this] show ?thesis by (simp add: new_msg_def)
  next
    case False
    let ?h = "new_msg ''user'' [TextBlock text_response_hint] User JNull ?s2"
    let ?s3 = "(snd ?h)\<lparr>memory := mem_add [fst ?h] (Some HINT) (memory (snd ?h)),
                          required_structured_model := None\<rparr>"
    have "check_exit m outs tc so ?s2 = ((None, Some NoTools, ?so), ?s3)"
      using pend assms(4) False by (simp add: check_exit_def Let_def split_beta)
    then have "reply_from (Suc n) tc so self = reply_from n (Some NoTools) ?so ?s3"
      using reply_from_Suc [where n=n and so=so, OF assms(2) assms(3)] by simp
    moreover have "required_structured_model ?s3 = None" by simp
    ultimately show ?thesis
      using reply_from_cached_output [of ?s3 n "Some NoTools" ?so r self'] assms(5) by simp
  qed
qed

lemma consume_other_tool:
  "tu_name tc \<noteq> finish_function_name \<Longrightarrow> fst (consume_tool_chunks tc chunks e out) = Inr x
   \<Longrightarrow> x = JNull"
  by (induction chunks arbitrary: out) (auto simp: Let_def split: option.splits if_splits)

lemma acting_result:
  "fst (acting tc self)
   = (case call_tool_function tc (snd (new_msg ''system''
            [ToolResultBlock (tu_id tc) (tu_name tc) (OutBlocks [])] System JNull self)) of
        ToolRaises e \<Rightarrow> Inl e
      | ToolStream chunks ending \<Rightarrow> fst (consume_tool_chunks tc chunks ending (OutBlocks [])))"
  by (simp add: acting_def Let_def split_beta split: tool_outcome.splits)

lemma acting_valid_finish:
  assumes "required_structured_model self = Some sm"
      and "validate sm (tu_input tc) = Inr data"
      and "tu_name tc = finish_function_name"
      and "finish_function_name \<in> set (tools (the_toolkit self))"
  shows "fst (acting tc self) = Inr (JObj data)"
  using assms
  by (simp add: acting_result call_tool_function_def new_msg_def generate_response_def
        chunk_success_def chunk_structured_output_def dict_get_def)

lemma acting_truthy_output:
  assumes "fst (acting tc self) = Inr out" and "truthy out"
      and "required_structured_model self = Some sm"
      and "finish_function_name \<in> set (tools (the_toolkit self))"
  shows "tu_name tc = finish_function_name
         \<and> (\<exists>data. validate sm (tu_input tc) = Inr data \<and> out = JObj data)"
proof (cases "tu_name tc = finish_function_name")
  case True
  show ?thesis
  proof (cases "validate sm (tu_input tc)")
    case (Inl err)
    have "fst (acting tc self) = Inr JNull"
      using acting_invalid_finish(1) [OF assms(3) Inl True assms(4)] .
    then show ?thesis using assms(1,2) by simp
  next
    case (Inr data)
    have "fst (acting tc self) = Inr (JObj data)"
      using acting_valid_finish [OF assms(3) Inr True assms(4)] .
    then show ?thesis using assms(1) True Inr by simp
  qed
next
  case False
  let ?s = "snd (new_msg ''system''
            [ToolResultBlock (tu_id tc) (tu_name tc) (OutBlocks [])] System JNull self)"
  have "out = JNull"
  proof (cases "call_tool_function tc ?s")
    case (ToolRaises e)
    then show ?thesis using assms(1) by (simp add: acting_result)
  next
    case (ToolStream chunks ending)
    then have "fst (consume_tool_chunks tc chunks ending (OutBlocks [])) = Inr out"
      using assms(1) by (simp add: acting_result)
    then show ?thesis using consume_other_tool [OF False] by blast
  qed
  then show ?thesis using assms(2) by simp
qed

lemma acting_all_truthy_output:
  assumes "fst (acting_all tcs self) = Inr outs" and "out \<in> set outs" and "truthy out"
      and "required_structured_model self = Some sm"
      and "finish_function_name \<in> set (tools (the_toolkit self))"
  shows "\<exists>tc \<in> set tcs. tu_name tc = finish_function_name
           \<and> (\<exists>data. validate sm (tu_input tc) = Inr data \<and> out = JObj data)"
  using assms(1,2,4,5)
proof (induction tcs arbitrary: self outs)
  case Nil
  then show ?case by simp
next
  case (Cons t ts)
  let ?s = "snd (acting t self)"
  from acting_all_Inr_Cons [OF Cons.prems(1)] obtain o1 outs' where
    o: "fst (acting t self) = Inr o1" "fst (acting_all ts ?s) = Inr outs'" "outs = o1 # outs'"
    by blast
  have cfg: "required_structured_model ?s = Some sm"
            "finish_function_name \<in> set (tools (the_toolkit ?s))"
    using acting_setup [of self t] Cons.prems(3,4) by (simp_all add: same_setup_def)
  show ?case
  proof (cases "out = o1")
    case True
    then show ?thesis
      using acting_truthy_output [OF _ assms(3) Cons.prems(3) Cons.prems(4), of t] o(1) by simp
  next
    case False
    then have "out \<in> set outs'" using Cons.prems(2) o(3) by simp
    from Cons.IH [OF o(2) this cfg] show ?thesis by auto
  qed
qed

lemma acting_all_valid_finish:
  assumes "tc \<in> set tcs"
      and "fst (acting_all tcs self) = Inr outs"
      and "required_structured_model self = Some sm"
      and "validate sm (tu_input tc) = Inr data"
      and "tu_name tc = finish_function_name"
      and "finish_function_name \<in> set (tools (the_toolkit self))"
  shows "JObj data \<in> set outs"
  using assms(1,2,3,6)
proof (induction tcs arbitrary: self outs)
  case Nil
  then show ?case by simp
next
  case (Cons t ts)
  let ?s = "snd (acting t self)"
  from acting_all_Inr_Cons [OF Cons.prems(2)] obtain o1 outs' where
    o: "fst (acting t self) = Inr o1" "fst (acting_all ts ?s) = Inr outs'" "outs = o1 # outs'"
    by blast
  have cfg: "required_structured_model ?s = Some sm"
            "finish_function_name \<in> set (tools (the_toolkit ?s))"
    using acting_setup [of self t] Cons.prems(3,4) by (simp_all add: same_setup_def)
  show ?case
  proof (cases "tc = t")
    case True
    then show ?thesis
      using acting_valid_finish [OF Cons.prems(3) assms(4) assms(5) Cons.prems(4)] o(1,3)
      by simp
  next
    case False
    then have "tc \<in> set ts" using Cons.prems(1) by simp
    from Cons.IH [OF this o(2) cfg] show ?thesis using o(3) by simp
  qed
qed

text \<open>
  If, with a structured model required, a reasoning turn calls the finishing tool with
  arguments that validate to a non-empty result, then the reply that \<^verbatim>\<open>reply\<close> returns from
  there has as metadata the validated data of a finishing tool call of that turn.
\<close>

lemma finishing_call_gives_reply_metadata:
  assumes "required_structured_model self = Some sm"
      and "finish_function_name \<in> set (tools (the_toolkit self))"
      and "fst (reasoning tool_choice self) = Inr m"
      and "tool_call \<in> set (tool_use_blocks m)"
      and "tu_name tool_call = finish_function_name"
      and "validate sm (tu_input tool_call) = Inr data" and "data \<noteq> []"
      and "fst (acting_all (tool_use_blocks m) (snd (reasoning tool_choice self))) = Inr outs"
      and "reply_from (Suc n) tool_choice so self = (Inr r, self')"
  shows "\<exists>tc \<in> set (tool_use_blocks m). tu_name tc = finish_function_name
           \<and> (\<exists>data'. validate sm (tu_input tc) = Inr data' \<and> msg_metadata r = JObj data')"
proof -
  let ?s1 = "snd (reasoning tool_choice self)"
  have cfg: "required_structured_model ?s1 = Some sm"
            "finish_function_name \<in> set (tools (the_toolkit ?s1))"
    using reasoning_setup [of self tool_choice] assms(1,2) by (simp_all add: same_setup_def)
  have "JObj data \<in> set outs"
    using acting_all_valid_finish [OF assms(4) assms(8) cfg(1) assms(6) assms(5) cfg(2)] .
  moreover have "truthy (JObj data)" using assms(7) by simp
  ultimately have "\<exists>x \<in> set outs. truthy x" by blast
  then have ne: "filter truthy outs \<noteq> []"
    by (simp add: filter_empty_conv)
  have "msg_metadata r = last (filter truthy outs)"
    using truthy_output_is_reply_metadata [OF _ assms(3) assms(8) ne assms(9)] assms(1)
    by simp
  moreover have "last (filter truthy outs) \<in> set (filter truthy outs)"
    using ne by (rule last_in_set)
  ultimately have "msg_metadata r \<in> set (filter truthy outs)" by simp
  then have "msg_metadata r \<in> set outs" "truthy (msg_metadata r)" by simp_all
  from acting_all_truthy_output [OF assms(8) this cfg] show ?thesis .
qed

text \<open>
  C7. The structured model has no field, so the finishing tool validates the model's
  arguments to the empty dictionary and the tool call succeeds. The empty dictionary is
  falsy and is dropped by \<^verbatim>\<open>[_ for _ in structured_outputs if _]\<close>; the loop goes on as if
  no structured output had been produced, uses up its iterations, and the reply is the
  forced summary with metadata \<^verbatim>\<open>None\<close>, not the validated data. For validated data
  that is not empty the reply does carry it (\<open>finishing_call_gives_reply_metadata\<close>), and
  the loop never runs more iterations than allowed (\<open>reply_loop_iterations\<close>).
\<close>

theorem empty_structured_output_is_dropped:
  "validate empty_schema [] = Inr []
   \<and> fst (reply [user_turn] (Some empty_schema)
            ((demo_agent (scripted_model [finish_call ''c1'' []]))\<lparr>max_iters := 2\<rparr>))
     = Inr \<lparr>msg_id = 108, msg_name = ''Friday'', msg_content = [TextBlock ''summary''],
            msg_role = Assistant, msg_metadata = JNull\<rparr>"
  by (simp add: reply_eval empty_schema_def)






end
